theory Spec2Isabelle
  imports Complex_Main
begin

section \<open>Python values used by the coordination core\<close>

text \<open>
  The server of \<^verbatim>\<open>examples/websocket-showcase/server/python/fastapi_server.py\<close> keeps
  its state in module-level dictionaries that the Socket.IO handlers mutate.  A Python
  \<^verbatim>\<open>dict\<close> iterates in insertion order: assigning to a key that is present keeps the
  key's position, assigning to a new key appends it, and \<^verbatim>\<open>del\<close> removes the entry.
  It is modelled as an association list with exactly these operations.
\<close>

type_synonym ('k, 'v) dict = "('k \<times> 'v) list"

definition dict_get :: "('k, 'v) dict \<Rightarrow> 'k \<Rightarrow> 'v option" where
  "dict_get d k = map_of d k"

definition dict_has :: "'k \<Rightarrow> ('k, 'v) dict \<Rightarrow> bool" where
  "dict_has k d = (dict_get d k \<noteq> None)"

fun dict_set :: "'k \<Rightarrow> 'v \<Rightarrow> ('k, 'v) dict \<Rightarrow> ('k, 'v) dict" where
  "dict_set k v [] = [(k, v)]"
| "dict_set k v ((k', v') # d) = (if k' = k then (k, v) # d else (k', v') # dict_set k v d)"

fun dict_del :: "'k \<Rightarrow> ('k, 'v) dict \<Rightarrow> ('k, 'v) dict" where
  "dict_del k [] = []"
| "dict_del k ((k', v') # d) = (if k' = k then dict_del k d else (k', v') # dict_del k d)"

definition dict_keys :: "('k, 'v) dict \<Rightarrow> 'k list" where
  "dict_keys d = map fst d"

definition dict_values :: "('k, 'v) dict \<Rightarrow> 'v list" where
  "dict_values d = map snd d"

text \<open>Truthiness of an optional string: \<^verbatim>\<open>None\<close> and the empty string are falsy.\<close>

fun truthy :: "string option \<Rightarrow> bool" where
  "truthy None = False"
| "truthy (Some s) = (s \<noteq> [])"

text \<open>\<^verbatim>\<open>d.get(key, default)\<close> on a field that may be absent.\<close>

fun get_or :: "'a option \<Rightarrow> 'a \<Rightarrow> 'a" where
  "get_or None dflt = dflt"
| "get_or (Some v) dflt = v"

section \<open>Data model\<close>

text \<open>
  Payloads arrive as JSON objects.  Every field the code reads with \<^verbatim>\<open>.get\<close> is an
  optional field here (\<open>None\<close>: the key is absent); identifiers and tags are strings,
  counters are Python integers, and timestamps (\<^verbatim>\<open>datetime.now().timestamp() * 1000\<close>)
  are reals.
\<close>

type_synonym timestamp = real

record agent_metadata =
  currentTasks :: "int option"
  maxConcurrentTasks :: "int option"

text \<open>The payload of \<^verbatim>\<open>register_agent\<close>, as sent by the client.\<close>

record agent_info =
  info_id :: "string option"
  info_type :: "string option"
  info_capabilities :: "string list option"
  info_status :: "string option"
  info_metadata :: "agent_metadata option"

text \<open>
  An agent as stored in \<^verbatim>\<open>registered_agents\<close> and in a session's \<^verbatim>\<open>agents\<close>:
  the payload, which \<^verbatim>\<open>register_agent\<close> only stores when its \<^verbatim>\<open>id\<close> is truthy, with
  the three keys the handler stamps on it.
\<close>

record agent =
  agent_id :: string
  agent_type :: "string option"
  agent_capabilities :: "string list option"
  agent_status :: "string option"
  metadata :: "agent_metadata option"
  socket_id :: string
  registered_at :: timestamp
  agent_environment :: string

record requirements =
  req_capabilities :: "string list option"
  req_agentTypes :: "string list option"

record task_definition =
  task_id :: "string option"
  task_sessionId :: "string option"
  task_requirements :: "requirements option"
  collaborationMode :: "string option"

record progress_data =
  progress_sessionId :: "string option"
  progress_taskId :: "string option"
  progress_status :: "string option"
  progress_fields :: "(string \<times> string) list"

text \<open>
  A stored task is \<^verbatim>\<open>{**task_definition, 'startTime': .., 'status': 'started',
  'environment': ..}\<close>; \<^verbatim>\<open>agent_progress\<close> later adds \<^verbatim>\<open>lastProgress\<close> and
  \<^verbatim>\<open>lastUpdate\<close>.
\<close>

record task =
  definition_of :: task_definition
  startTime :: timestamp
  task_status :: string
  task_environment :: string
  lastProgress :: "progress_data option"
  lastUpdate :: "timestamp option"

record request_data =
  request_sessionId :: "string option"
  requestId :: "string option"
  targetAgent :: "string option"
  request_fields :: "(string \<times> string) list"

record collaboration =
  request_of :: request_data
  collaboration_timestamp :: timestamp
  collaboration_status :: string

record metrics =
  totalTasks :: int
  completedTasks :: int
  errorCount :: int
  avgExecutionTime :: real

record session =
  sessionId :: string
  createdAt :: timestamp
  lastActivity :: timestamp
  session_status :: string
  agents :: "(string, agent) dict"
  tasks :: "(string, task) dict"
  activeStreams :: "(string, string) dict"
  collaborationRequests :: "(string option, collaboration) dict"
  session_metrics :: metrics

record server_stats =
  start_time :: timestamp
  connections :: int
  messages_processed :: int
  tasks_completed :: int
  errors :: int

subsection \<open>Outbound events\<close>

text \<open>
  Each constructor is one event name with the keys of the dictionary the code sends;
  \<open>event_name\<close> gives the name passed to \<^verbatim>\<open>sio.emit\<close>.
\<close>

datatype payload =
    ErrorMessage string
  | AuthError string
  | ArgsWelcome string timestamp
  | AgentUnregistered string string string timestamp
  | SessionState session "agent list" "task list"
  | AgentRegistered string agent timestamp
  | TaskError string string requirements int timestamp
  | TaskAssigned string string string task_definition timestamp
  | TaskProgress string progress_data string timestamp timestamp
  | CollaborationRequest request_data timestamp
  | CollaborationError "string option" string timestamp
  | DemoProgress string string string string int timestamp timestamp
  | TaskCompleted string string string real timestamp
  | Custom string "(string \<times> string) list" string timestamp

fun event_name :: "payload \<Rightarrow> string" where
  "event_name (ErrorMessage _) = ''error''"
| "event_name (AuthError _) = ''auth-error''"
| "event_name (ArgsWelcome _ _) = ''args-welcome''"
| "event_name (AgentUnregistered _ _ _ _) = ''agent-unregistered''"
| "event_name (SessionState _ _ _) = ''session-state''"
| "event_name (AgentRegistered _ _ _) = ''agent-registered''"
| "event_name (TaskError _ _ _ _ _) = ''task-error''"
| "event_name (TaskAssigned _ _ _ _ _) = ''task-assigned''"
| "event_name (TaskProgress _ _ _ _ _) = ''task-progress''"
| "event_name (CollaborationRequest _ _) = ''collaboration-request''"
| "event_name (CollaborationError _ _ _) = ''collaboration-error''"
| "event_name (DemoProgress _ _ _ _ _ _ _) = ''task-progress''"
| "event_name (TaskCompleted _ _ _ _ _) = ''task-completed''"
| "event_name (Custom name _ _ _) = name"

text \<open>One call of \<^verbatim>\<open>sio.emit(event, data, room=..)\<close>; no room means every client.\<close>

record emitted =
  event :: payload
  room :: "string option"

section \<open>The server state and its effects\<close>

text \<open>
  The handlers read the wall clock several times and send events as they go.  Both are
  explicit: \<open>clock w n\<close> is the value of the \<open>n\<close>-th call of
  \<^verbatim>\<open>datetime.now().timestamp()\<close> since the module was loaded, \<open>ticks w\<close> counts the
  calls made so far, and \<open>outbox w\<close> is the list of \<^verbatim>\<open>sio.emit\<close> calls in the order
  they were made.  \<open>environment w\<close> is the value of the \<^verbatim>\<open>ENVIRONMENT\<close> variable.
\<close>

record world =
  active_sessions :: "(string, session) dict"
  registered_agents :: "(string, agent) dict"
  stats :: server_stats
  environment :: string
  clock :: "nat \<Rightarrow> real"
  ticks :: nat
  outbox :: "emitted list"

definition now_ms :: "world \<Rightarrow> timestamp \<times> world" where
  "now_ms w = (clock w (ticks w) * 1000, w\<lparr>ticks := Suc (ticks w)\<rparr>)"

definition emit :: "payload \<Rightarrow> string option \<Rightarrow> world \<Rightarrow> world" where
  "emit p r w = w\<lparr>outbox := outbox w @ [\<lparr>event = p, room = r\<rparr>]\<rparr>"

text \<open>The events sent between two states of one run.\<close>

definition emitted_since :: "world \<Rightarrow> world \<Rightarrow> emitted list" where
  "emitted_since w w' = drop (length (outbox w)) (outbox w')"

text \<open>In-place mutation of the session stored under a key that is present.\<close>

definition update_session :: "string \<Rightarrow> (session \<Rightarrow> session) \<Rightarrow> world \<Rightarrow> world" where
  "update_session session_id f w =
     (case dict_get (active_sessions w) session_id of
        None \<Rightarrow> w
      | Some s \<Rightarrow> w\<lparr>active_sessions := dict_set session_id (f s) (active_sessions w)\<rparr>)"

section \<open>Matcher\<close>

text \<open>
  \<^verbatim>\<open>find_suitable_agents\<close>: the tests of the loop body, then the loop itself with its
  accumulator \<^verbatim>\<open>suitable_agents\<close>.  \<open>type_excluded\<close> is the condition of the first
  \<^verbatim>\<open>continue\<close>; an agent without a \<^verbatim>\<open>type\<close> key has type \<^verbatim>\<open>None\<close>, which is in no
  list of type names.
\<close>

definition requirements_of :: "task_definition \<Rightarrow> requirements" where
  "requirements_of task_definition =
     get_or (task_requirements task_definition)
       \<lparr>req_capabilities = None, req_agentTypes = None\<rparr>"

definition type_excluded :: "string list \<Rightarrow> agent \<Rightarrow> bool" where
  "type_excluded required_agent_types a =
     (required_agent_types \<noteq> [] \<and>
      (case agent_type a of None \<Rightarrow> True | Some t \<Rightarrow> t \<notin> set required_agent_types))"

definition has_capabilities :: "string list \<Rightarrow> agent \<Rightarrow> bool" where
  "has_capabilities required_capabilities a =
     list_all (\<lambda>cap. cap \<in> set (get_or (agent_capabilities a) [])) required_capabilities"

definition current_tasks_of :: "agent \<Rightarrow> int" where
  "current_tasks_of a =
     get_or (currentTasks (get_or (metadata a) \<lparr>currentTasks = None, maxConcurrentTasks = None\<rparr>)) 0"

definition max_tasks_of :: "agent \<Rightarrow> int" where
  "max_tasks_of a =
     get_or (maxConcurrentTasks
       (get_or (metadata a) \<lparr>currentTasks = None, maxConcurrentTasks = None\<rparr>)) 1"

fun suitable_loop ::
  "string list \<Rightarrow> string list \<Rightarrow> (string, agent) dict \<Rightarrow> agent list \<Rightarrow> agent list" where
  "suitable_loop required_agent_types required_capabilities [] suitable_agents = suitable_agents"
| "suitable_loop required_agent_types required_capabilities ((aid, a) # rest) suitable_agents =
     (if type_excluded required_agent_types a then
        suitable_loop required_agent_types required_capabilities rest suitable_agents
      else if \<not> has_capabilities required_capabilities a then
        suitable_loop required_agent_types required_capabilities rest suitable_agents
      else if agent_status a = Some ''idle'' then
        (if current_tasks_of a < max_tasks_of a then
           suitable_loop required_agent_types required_capabilities rest (suitable_agents @ [a])
         else suitable_loop required_agent_types required_capabilities rest suitable_agents)
      else suitable_loop required_agent_types required_capabilities rest suitable_agents)"

definition find_suitable_agents :: "task_definition \<Rightarrow> string \<Rightarrow> world \<Rightarrow> agent list" where
  "find_suitable_agents task_definition session_id w =
     (case dict_get (active_sessions w) session_id of
        None \<Rightarrow> []
      | Some s \<Rightarrow>
          suitable_loop
            (get_or (req_agentTypes (requirements_of task_definition)) [])
            (get_or (req_capabilities (requirements_of task_definition)) [])
            (agents s) [])"

section \<open>Registry\<close>

text \<open>
  \<^verbatim>\<open>disconnect\<close>.  The inner loop visits every session and, where the agent is listed,
  deletes it and sends one \<^verbatim>\<open>agent-unregistered\<close> event to the session's room; the outer
  loop runs it for each agent whose \<^verbatim>\<open>socket_id\<close> is the closing connection.  The
  sessions are mutated in place while the keys of \<^verbatim>\<open>active_sessions\<close> stay as they are,
  so the loop over \<^verbatim>\<open>active_sessions.items()\<close> is a fold over the keys that reads each
  session when it reaches it.
\<close>

definition unregister_in_session :: "string \<Rightarrow> string \<Rightarrow> world \<Rightarrow> world" where
  "unregister_in_session aid session_id w =
     (case dict_get (active_sessions w) session_id of
        None \<Rightarrow> w
      | Some s \<Rightarrow>
          if dict_has aid (agents s) then
            (let w1 = update_session session_id (\<lambda>s. s\<lparr>agents := dict_del aid (agents s)\<rparr>) w;
                 (t, w2) = now_ms w1
             in emit (AgentUnregistered session_id aid ''disconnection'' t) (Some session_id) w2)
          else w)"

definition remove_agent :: "string \<Rightarrow> world \<Rightarrow> world" where
  "remove_agent aid w =
     (let w1 = w\<lparr>registered_agents := dict_del aid (registered_agents w)\<rparr>
      in fold (unregister_in_session aid) (dict_keys (active_sessions w1)) w1)"

definition agents_to_remove :: "string \<Rightarrow> world \<Rightarrow> string list" where
  "agents_to_remove sid w =
     map fst (filter (\<lambda>(aid, a). socket_id a = sid) (registered_agents w))"

definition disconnect :: "string \<Rightarrow> world \<Rightarrow> world" where
  "disconnect sid w =
     (let w1 = w\<lparr>stats := (stats w)\<lparr>connections := max 0 (connections (stats w) - 1)\<rparr>\<rparr>
      in fold remove_agent (agents_to_remove sid w1) w1)"

text \<open>
  \<^verbatim>\<open>join_session\<close>.  \<^verbatim>\<open>sio.enter_room\<close> changes only the transport's room table, which
  is not part of this state.
\<close>

definition new_session :: "string \<Rightarrow> timestamp \<Rightarrow> timestamp \<Rightarrow> session" where
  "new_session session_id t_created t_activity =
     \<lparr>sessionId = session_id, createdAt = t_created, lastActivity = t_activity,
      session_status = ''active'', agents = [], tasks = [], activeStreams = [],
      collaborationRequests = [],
      session_metrics =
        \<lparr>totalTasks = 0, completedTasks = 0, errorCount = 0, avgExecutionTime = 0\<rparr>\<rparr>"

definition join_session :: "string \<Rightarrow> string option \<Rightarrow> world \<Rightarrow> world" where
  "join_session sid data_sessionId w =
     (case data_sessionId of
        None \<Rightarrow> emit (ErrorMessage ''Session ID required'') (Some sid) w
      | Some session_id \<Rightarrow>
          if session_id = [] then emit (ErrorMessage ''Session ID required'') (Some sid) w
          else
            (let w1 =
                   (if \<not> dict_has session_id (active_sessions w) then
                      (let (t_created, wa) = now_ms w;
                           (t_activity, wb) = now_ms wa
                       in wb\<lparr>active_sessions :=
                               dict_set session_id (new_session session_id t_created t_activity)
                                 (active_sessions wb)\<rparr>)
                    else w);
                 (t, w2) = now_ms w1;
                 w3 = update_session session_id (\<lambda>s. s\<lparr>lastActivity := t\<rparr>) w2
             in (case dict_get (active_sessions w3) session_id of
                   None \<Rightarrow> w3
                 | Some s \<Rightarrow>
                     emit (SessionState s (dict_values (agents s)) (dict_values (tasks s)))
                       (Some sid) w3)))"

text \<open>
  \<^verbatim>\<open>register_agent\<close>.  \<open>rooms\<close> is the value of \<^verbatim>\<open>sio.manager.get_rooms(sid)\<close>, which
  the transport supplies; the registry is written before the rooms are asked for, and
  with no rooms the handler does nothing else.
\<close>

definition announce_agent :: "string \<Rightarrow> string \<Rightarrow> agent \<Rightarrow> string \<Rightarrow> world \<Rightarrow> world" where
  "announce_agent sid aid a room_name w =
     (if room_name \<noteq> sid \<and> dict_has room_name (active_sessions w) then
        (let w1 = update_session room_name (\<lambda>s. s\<lparr>agents := dict_set aid a (agents s)\<rparr>) w;
             (t_activity, w2) = now_ms w1;
             w3 = update_session room_name (\<lambda>s. s\<lparr>lastActivity := t_activity\<rparr>) w2;
             (t, w4) = now_ms w3
         in emit (AgentRegistered room_name a t) (Some room_name) w4)
      else w)"

definition register_agent :: "string \<Rightarrow> agent_info \<Rightarrow> string list \<Rightarrow> world \<Rightarrow> world" where
  "register_agent sid info rooms w =
     (case info_id info of
        None \<Rightarrow> emit (ErrorMessage ''Agent ID required'') (Some sid) w
      | Some aid \<Rightarrow>
          if aid = [] then emit (ErrorMessage ''Agent ID required'') (Some sid) w
          else
            (let (t, w1) = now_ms w;
                 a = \<lparr>agent_id = aid, agent_type = info_type info,
                      agent_capabilities = info_capabilities info,
                      agent_status = info_status info, metadata = info_metadata info,
                      socket_id = sid, registered_at = t,
                      agent_environment = environment w\<rparr>;
                 w2 = w1\<lparr>registered_agents := dict_set aid a (registered_agents w1)\<rparr>
             in fold (announce_agent sid aid a) rooms w2))"

section \<open>Dispatcher\<close>

text \<open>
  \<^verbatim>\<open>start_task\<close>.  \<open>record_task\<close> is the block under \<^verbatim>\<open># Add task to session\<close>,
  \<open>assign_parallel\<close> the loop of the \<^verbatim>\<open>parallel\<close> branch.
\<close>

definition bump_messages :: "world \<Rightarrow> world" where
  "bump_messages w =
     w\<lparr>stats := (stats w)\<lparr>messages_processed := messages_processed (stats w) + 1\<rparr>\<rparr>"

definition record_task :: "string \<Rightarrow> string \<Rightarrow> task_definition \<Rightarrow> world \<Rightarrow> world" where
  "record_task session_id tid task_definition w =
     (if dict_has session_id (active_sessions w) then
        (let (t_start, w1) = now_ms w;
             w2 = update_session session_id
                    (\<lambda>s. s\<lparr>tasks :=
                             dict_set tid
                               \<lparr>definition_of = task_definition, startTime = t_start,
                                task_status = ''started'', task_environment = environment w,
                                lastProgress = None, lastUpdate = None\<rparr>
                               (tasks s)\<rparr>) w1;
             w3 = update_session session_id
                    (\<lambda>s. s\<lparr>session_metrics :=
                             (session_metrics s)\<lparr>totalTasks := totalTasks (session_metrics s) + 1\<rparr>\<rparr>)
                    w2;
             (t_activity, w4) = now_ms w3
         in update_session session_id (\<lambda>s. s\<lparr>lastActivity := t_activity\<rparr>) w4)
      else w)"

definition available_agents :: "string \<Rightarrow> world \<Rightarrow> int" where
  "available_agents session_id w =
     (case dict_get (active_sessions w) session_id of
        None \<Rightarrow> 0
      | Some s \<Rightarrow> int (length (agents s)))"

fun assign_parallel :: "string \<Rightarrow> string \<Rightarrow> task_definition \<Rightarrow> agent list \<Rightarrow> world \<Rightarrow> world" where
  "assign_parallel session_id tid task_definition [] w = w"
| "assign_parallel session_id tid task_definition (a # rest) w =
     (let (t, w1) = now_ms w
      in assign_parallel session_id tid task_definition rest
           (emit (TaskAssigned tid (agent_id a) ''parallel'' task_definition t)
              (Some session_id) w1))"

definition start_task :: "string \<Rightarrow> task_definition \<Rightarrow> world \<Rightarrow> world" where
  "start_task sid task_definition w =
     (let session_id = get_or (task_sessionId task_definition) ''default''
      in case task_id task_definition of
           None \<Rightarrow> emit (ErrorMessage ''Task ID required'') (Some sid) w
         | Some tid \<Rightarrow>
             if tid = [] then emit (ErrorMessage ''Task ID required'') (Some sid) w
             else
               (let w1 = bump_messages w;
                    w2 = record_task session_id tid task_definition w1
                in case find_suitable_agents task_definition session_id w2 of
                     [] \<Rightarrow>
                       (let (t, w3) = now_ms w2;
                            w4 = emit (TaskError tid ''No suitable agents found for task''
                                         (requirements_of task_definition)
                                         (available_agents session_id w2) t)
                                   (Some session_id) w3
                        in w4\<lparr>stats := (stats w4)\<lparr>errors := errors (stats w4) + 1\<rparr>\<rparr>)
                   | a # rest \<Rightarrow>
                       if get_or (collaborationMode task_definition) ''sequential'' = ''parallel''
                       then assign_parallel session_id tid task_definition (a # rest) w2
                       else
                         (let (t, w3) = now_ms w2
                          in emit (TaskAssigned tid (agent_id a) ''sequential'' task_definition t)
                               (Some session_id) w3)))"

text \<open>\<^verbatim>\<open>agent_progress\<close>; \<open>update_progress\<close> is the block under \<^verbatim>\<open># Update session state\<close>.\<close>

definition update_progress :: "string \<Rightarrow> string \<Rightarrow> progress_data \<Rightarrow> world \<Rightarrow> world" where
  "update_progress session_id tid progress w =
     (let w1 =
            (case dict_get (active_sessions w) session_id of
               None \<Rightarrow> w
             | Some s \<Rightarrow>
                 (case dict_get (tasks s) tid of
                    None \<Rightarrow> w
                  | Some tk \<Rightarrow>
                      (let (t_update, wa) = now_ms w
                       in update_session session_id
                            (\<lambda>s. s\<lparr>tasks :=
                                     dict_set tid
                                       (tk\<lparr>lastProgress := Some progress,
                                           lastUpdate := Some t_update\<rparr>)
                                       (tasks s)\<rparr>) wa)));
          (t_activity, w2) = now_ms w1;
          w3 = update_session session_id (\<lambda>s. s\<lparr>lastActivity := t_activity\<rparr>) w2
      in if progress_status progress = Some ''completed'' then
           (let w4 = update_session session_id
                       (\<lambda>s. s\<lparr>session_metrics :=
                                (session_metrics s)
                                  \<lparr>completedTasks := completedTasks (session_metrics s) + 1\<rparr>\<rparr>)
                       w3
            in w4\<lparr>stats := (stats w4)\<lparr>tasks_completed := tasks_completed (stats w4) + 1\<rparr>\<rparr>)
         else w3)"

definition agent_progress :: "string \<Rightarrow> progress_data \<Rightarrow> world \<Rightarrow> world" where
  "agent_progress sid progress w =
     (let session_id = get_or (progress_sessionId progress) ''default'';
          w1 = bump_messages w;
          w2 =
            (case progress_taskId progress of
               None \<Rightarrow> w1
             | Some tid \<Rightarrow>
                 if dict_has session_id (active_sessions w1) \<and> tid \<noteq> [] then
                   update_progress session_id tid progress w1
                 else w1);
          (t_server, w3) = now_ms w2;
          (t, w4) = now_ms w3
      in emit (TaskProgress session_id progress (environment w) t_server t) (Some session_id) w4)"

section \<open>Collaboration router\<close>

text \<open>
  \<^verbatim>\<open>collaboration_request\<close>.  \<open>find_target_socket\<close> is the search loop over
  \<^verbatim>\<open>registered_agents.items()\<close>, which stops at the first agent whose key is the target.
\<close>

fun find_target_socket :: "string \<Rightarrow> (string, agent) dict \<Rightarrow> string option" where
  "find_target_socket target_agent [] = None"
| "find_target_socket target_agent ((aid, a) # rest) =
     (if aid = target_agent then Some (socket_id a) else find_target_socket target_agent rest)"

definition store_request :: "string \<Rightarrow> request_data \<Rightarrow> world \<Rightarrow> world" where
  "store_request session_id request w =
     (if dict_has session_id (active_sessions w) then
        (let (t, w1) = now_ms w
         in update_session session_id
              (\<lambda>s. s\<lparr>collaborationRequests :=
                       dict_set (requestId request)
                         \<lparr>request_of = request, collaboration_timestamp = t,
                          collaboration_status = ''pending''\<rparr>
                         (collaborationRequests s)\<rparr>) w1)
      else w)"

definition collaboration_request :: "string \<Rightarrow> request_data \<Rightarrow> world \<Rightarrow> world" where
  "collaboration_request sid request w =
     (let session_id = get_or (request_sessionId request) ''default'';
          w1 = bump_messages w;
          w2 = store_request session_id request w1
      in if truthy (targetAgent request) then
           (let target_agent = get_or (targetAgent request) [];
                target_socket = find_target_socket target_agent (registered_agents w2)
            in if truthy target_socket then
                 (let (t, w3) = now_ms w2
                  in emit (CollaborationRequest request t) target_socket w3)
               else
                 (let (t, w3) = now_ms w2
                  in emit (CollaborationError (requestId request)
                             (''Target agent '' @ target_agent @ '' not found'') t)
                       (Some sid) w3))
         else
           (let (t, w3) = now_ms w2
            in emit (CollaborationRequest request t) (Some session_id) w3))"

section \<open>Connections, HTTP endpoints and the demo task\<close>

text \<open>
  \<^verbatim>\<open>connect\<close> returns whether the connection is accepted.  \<^verbatim>\<open>sio.disconnect(sid)\<close> is a
  request to the transport, which reports the closed connection through the
  \<^verbatim>\<open>disconnect\<close> handler.
\<close>

record auth_data =
  apiKey :: "string option"

definition connect :: "string \<Rightarrow> auth_data option \<Rightarrow> world \<Rightarrow> bool \<times> world" where
  "connect sid auth w =
     (let w1 = w\<lparr>stats := (stats w)\<lparr>connections := connections (stats w) + 1\<rparr>\<rparr>;
          api_key = (case auth of None \<Rightarrow> None | Some a \<Rightarrow> apiKey a)
      in if (environment w = ''production'' \<or> environment w = ''staging'') \<and>
            \<not> truthy api_key \<and> environment w = ''production''
         then (False, emit (AuthError ''API key required in production'') (Some sid) w1)
         else
           (let (t, w2) = now_ms w1
            in (True, emit (ArgsWelcome (environment w) t) (Some sid) w2)))"

text \<open>\<^verbatim>\<open>broadcast_message\<close> (\<^verbatim>\<open>POST /api/ws/broadcast\<close>); the result is \<^verbatim>\<open>targetSessions\<close>.\<close>

record message_data =
  message_sessionId :: "string option"
  message_event :: "string option"
  message_fields :: "(string \<times> string) list"

definition broadcast_message :: "message_data \<Rightarrow> world \<Rightarrow> int \<times> world" where
  "broadcast_message message w =
     (let event_id = get_or (message_event message) ''broadcast'';
          (t, w1) = now_ms w;
          enhanced_data = Custom event_id (message_fields message) (environment w) t;
          (target_count, w2) =
            (if truthy (message_sessionId message) then
               (1, emit enhanced_data (message_sessionId message) w1)
             else (int (length (active_sessions w1)), emit enhanced_data None w1));
          w3 = bump_messages w2;
          (t_reply, w4) = now_ms w3
      in (target_count, w4))"

text \<open>
  Decimal rendering of an integer, for the identifiers
  \<^verbatim>\<open>f'demo-agent-{int(datetime.now().timestamp())}'\<close>; \<^verbatim>\<open>int\<close> truncates towards zero.
\<close>

fun str_nat :: "nat \<Rightarrow> string" where
  "str_nat n =
     (if n < 10 then [''0123456789'' ! n]
      else str_nat (n div 10) @ [''0123456789'' ! (n mod 10)])"

declare str_nat.simps [simp del]

definition str_int :: "int \<Rightarrow> string" where
  "str_int i = (if i < 0 then CHR ''-'' # str_nat (nat (- i)) else str_nat (nat i))"

definition py_int :: "real \<Rightarrow> int" where
  "py_int x = (if 0 \<le> x then \<lfloor>x\<rfloor> else \<lceil>x\<rceil>)"

definition now_s :: "world \<Rightarrow> real \<times> world" where
  "now_s w = (clock w (ticks w), w\<lparr>ticks := Suc (ticks w)\<rparr>)"

text \<open>
  \<^verbatim>\<open>simulate_agent_activity\<close> (\<^verbatim>\<open>POST /api/demo/simulate-agent\<close>) up to the point where it
  schedules \<^verbatim>\<open>simulate_task_execution\<close>, and its reply's clock reading.
\<close>

record simulate_request =
  simulate_sessionId :: "string option"
  simulate_agentType :: "string option"
  simulate_taskType :: "string option"

definition simulate_agent_activity :: "simulate_request \<Rightarrow> world \<Rightarrow> world" where
  "simulate_agent_activity request w =
     (let session_id = get_or (simulate_sessionId request) ''demo-session'';
          agent_type = get_or (simulate_agentType request) ''data-processor'';
          (t_id, w1) = now_s w;
          (t_registered, w2) = now_ms w1;
          demo_agent =
            \<lparr>agent_id = ''demo-agent-'' @ str_int (py_int t_id), agent_type = Some agent_type,
             agent_capabilities = Some [''data-analysis'', ''machine-learning'', ''visualization''],
             agent_status = Some ''idle'',
             metadata = Some \<lparr>currentTasks = Some 0, maxConcurrentTasks = Some 3\<rparr>,
             socket_id = ''demo'', registered_at = t_registered,
             agent_environment = environment w\<rparr>;
          w3 = w2\<lparr>registered_agents :=
                    dict_set (agent_id demo_agent) demo_agent (registered_agents w2)\<rparr>;
          w4 =
            (if \<not> dict_has session_id (active_sessions w3) then
               (let (t_created, wa) = now_ms w3;
                    (t_activity, wb) = now_ms wa
                in wb\<lparr>active_sessions :=
                        dict_set session_id (new_session session_id t_created t_activity)
                          (active_sessions wb)\<rparr>)
             else w3);
          w5 = update_session session_id
                 (\<lambda>s. s\<lparr>agents := dict_set (agent_id demo_agent) demo_agent (agents s)\<rparr>) w4;
          (t, w6) = now_ms w5;
          w7 = emit (AgentRegistered session_id demo_agent t) (Some session_id) w6;
          (t_reply, w8) = now_ms w7
      in w8)"

text \<open>
  \<^verbatim>\<open>simulate_task_execution\<close> runs as a background task and yields at every
  \<^verbatim>\<open>await\<close>, so other handlers run between its steps.  \<open>simulate_progress\<close> is one
  iteration of its loop up to the \<^verbatim>\<open>sleep\<close> (the step \<open>step_name\<close>, reached after
  \<open>elapsed_time\<close> seconds); \<open>simulate_completion\<close> is the part after the loop, where \<open>elapsed_time\<close> is
  the total of 17 seconds.  Dividing by a \<^verbatim>\<open>completed\<close> of zero raises and ends the
  task after the counter was incremented.  Of the progress payload, the keys that are
  fixed or computed from the step alone (\<^verbatim>\<open>status\<close>, \<^verbatim>\<open>message\<close>,
  \<^verbatim>\<open>estimatedTimeRemaining\<close>, \<^verbatim>\<open>metadata\<close>) are left out, as are the fixed
  \<^verbatim>\<open>results\<close> of the completion payload.
\<close>

definition demo_steps :: "(string \<times> nat) list" where
  "demo_steps =
     [(''initialization'', 2), (''data-loading'', 3), (''preprocessing'', 4),
      (''analysis'', 5), (''results-generation'', 2), (''cleanup'', 1)]"

definition total_duration :: nat where
  "total_duration = sum_list (map snd demo_steps)"

definition simulate_progress ::
  "string \<Rightarrow> string \<Rightarrow> string \<Rightarrow> string \<Rightarrow> nat \<Rightarrow> world \<Rightarrow> world" where
  "simulate_progress session_id aid tid step_name elapsed_time w =
     (let progress = py_int ((real elapsed_time / real total_duration) * 100);
          (t_progress, w1) = now_ms w;
          (t, w2) = now_ms w1
      in emit (DemoProgress session_id aid tid step_name progress t_progress t)
           (Some session_id) w2)"

definition simulate_completion ::
  "string \<Rightarrow> string \<Rightarrow> string \<Rightarrow> string \<Rightarrow> world \<Rightarrow> world" where
  "simulate_completion session_id aid tid task_type w =
     (let elapsed_time = real total_duration;
          (t, w1) = now_ms w;
          w2 = emit (TaskCompleted tid aid (task_type @ '' completed successfully'')
                       (elapsed_time * 1000) t)
                 (Some session_id) w1
      in case dict_get (active_sessions w2) session_id of
           None \<Rightarrow> w2\<lparr>stats := (stats w2)\<lparr>tasks_completed := tasks_completed (stats w2) + 1\<rparr>\<rparr>
         | Some s \<Rightarrow>
             (let completed = completedTasks (session_metrics s) + 1;
                  current_avg = avgExecutionTime (session_metrics s);
                  w3 = update_session session_id
                         (\<lambda>s. s\<lparr>session_metrics :=
                                  (session_metrics s)\<lparr>completedTasks := completed\<rparr>\<rparr>) w2
              in if completed = 0 then w3
                 else
                   (let w4 = update_session session_id
                               (\<lambda>s. s\<lparr>session_metrics :=
                                        (session_metrics s)
                                          \<lparr>avgExecutionTime :=
                                             (current_avg * real_of_int (completed - 1) +
                                              elapsed_time * 1000) / real_of_int completed\<rparr>\<rparr>)
                               w3
                    in w4\<lparr>stats := (stats w4)
                                      \<lparr>tasks_completed := tasks_completed (stats w4) + 1\<rparr>\<rparr>)))"

section \<open>Metrics aggregator\<close>

text \<open>
  \<^verbatim>\<open>health_check\<close>.  Python's \<^verbatim>\<open>/\<close> raises \<^verbatim>\<open>ZeroDivisionError\<close> on a zero divisor,
  which HOL's division does not, so the division is a function that can fail.  The
  arithmetic is exact (reals in place of floats).
\<close>

datatype py_error = ZeroDivisionError

definition py_truediv :: "real \<Rightarrow> real \<Rightarrow> py_error + real" where
  "py_truediv a b = (if b = 0 then Inl ZeroDivisionError else Inr (a / b))"

record performance =
  performance_active_sessions :: int
  performance_registered_agents :: int
  messages_per_second :: real
  error_rate :: real

record health =
  uptime :: real
  performance_of :: performance
  health_timestamp :: timestamp

definition health_check :: "world \<Rightarrow> (py_error + health) \<times> world" where
  "health_check w =
     (let (t_now, w1) = now_ms w;
          uptime = t_now - start_time (stats w)
      in case py_truediv (real_of_int (messages_processed (stats w))) (max (uptime / 1000) 1) of
           Inl e \<Rightarrow> (Inl e, w1)
         | Inr per_second \<Rightarrow>
             (case py_truediv (real_of_int (errors (stats w)))
                     (real_of_int (max (messages_processed (stats w)) 1)) of
                Inl e \<Rightarrow> (Inl e, w1)
              | Inr ratio \<Rightarrow>
                  (let (t, w2) = now_ms w1
                   in (Inr \<lparr>uptime = uptime,
                            performance_of =
                              \<lparr>performance_active_sessions = int (length (active_sessions w)),
                               performance_registered_agents = int (length (registered_agents w)),
                               messages_per_second = per_second,
                               error_rate = ratio * 100\<rparr>,
                            health_timestamp = t\<rparr>, w2))))"

section \<open>Runs of the server\<close>

text \<open>
  The state when the module has been loaded: \<^verbatim>\<open>start_time\<close> is the first clock
  reading.  A state is reachable when handlers, endpoints and steps of the demo task,
  called with any arguments in any order, lead to it; the read-only endpoints
  (\<^verbatim>\<open>/api/ws/stats\<close>, \<^verbatim>\<open>/api/ws/sessions\<close>, \<^verbatim>\<open>/api/ws/agents\<close>) only read the clock.
\<close>

definition initial_world :: "string \<Rightarrow> (nat \<Rightarrow> real) \<Rightarrow> world" where
  "initial_world env clk =
     \<lparr>active_sessions = [], registered_agents = [],
      stats = \<lparr>start_time = clk 0 * 1000, connections = 0, messages_processed = 0,
               tasks_completed = 0, errors = 0\<rparr>,
      environment = env, clock = clk, ticks = 1, outbox = []\<rparr>"

inductive reachable :: "world \<Rightarrow> bool" where
  loaded: "reachable (initial_world env clk)"
| connected: "reachable w \<Longrightarrow> reachable (snd (connect sid auth w))"
| disconnected: "reachable w \<Longrightarrow> reachable (disconnect sid w)"
| joined: "reachable w \<Longrightarrow> reachable (join_session sid data_sessionId w)"
| registered: "reachable w \<Longrightarrow> reachable (register_agent sid info rooms w)"
| task_started: "reachable w \<Longrightarrow> reachable (start_task sid task_definition w)"
| progressed: "reachable w \<Longrightarrow> reachable (agent_progress sid progress w)"
| requested: "reachable w \<Longrightarrow> reachable (collaboration_request sid request w)"
| broadcast: "reachable w \<Longrightarrow> reachable (snd (broadcast_message message w))"
| simulated: "reachable w \<Longrightarrow> reachable (simulate_agent_activity sim w)"
| demo_task_named: "reachable w \<Longrightarrow> reachable (snd (now_s w))"
| demo_progress: "reachable w \<Longrightarrow> reachable (simulate_progress session_id aid tid step_name n w)"
| demo_completed:
    "reachable w \<Longrightarrow> reachable (simulate_completion session_id aid tid task_type w)"
| health_checked: "reachable w \<Longrightarrow> reachable (snd (health_check w))"
| clock_read: "reachable w \<Longrightarrow> reachable (snd (now_ms w))"

section \<open>Observations on a state\<close>

text \<open>The record stored as \<^verbatim>\<open>active_sessions[session_id]['tasks'][tid]\<close>, if any.\<close>

definition stored_task :: "world \<Rightarrow> string \<Rightarrow> string \<Rightarrow> task option" where
  "stored_task w session_id tid =
     (case dict_get (active_sessions w) session_id of
        None \<Rightarrow> None
      | Some s \<Rightarrow> dict_get (tasks s) tid)"

text \<open>Whether session \<open>session_id\<close> exists and lists agent \<open>aid\<close>.\<close>

definition session_lists :: "world \<Rightarrow> string \<Rightarrow> string \<Rightarrow> bool" where
  "session_lists w session_id aid =
     (case dict_get (active_sessions w) session_id of
        None \<Rightarrow> False
      | Some s \<Rightarrow> dict_has aid (agents s))"



section \<open>A concrete scenario\<close>

text \<open>
  Two connections \<open>c1\<close> and \<open>c2\<close>.  Connection \<open>c1\<close> registered \<open>a1\<close> (idle, with
  one task of a limit of three) and \<open>a2\<close> (busy); connection \<open>c2\<close> registered \<open>a3\<close> (idle,
  with one task and no stated limit) and \<open>a4\<close> (idle, without metadata, of another
  type).  Session \<open>s1\<close> lists all four, session \<open>s2\<close> lists \<open>a1\<close> only, and there is a
  session \<open>default\<close> without agents that holds one task \<open>t0\<close>.  The clock advances by
  one second per reading.
\<close>

definition example_clock :: "nat \<Rightarrow> real" where
  "example_clock n = real n"

definition agent_a1 :: agent where
  "agent_a1 =
     \<lparr>agent_id = ''a1'', agent_type = Some ''worker'', agent_capabilities = Some [''nlp'', ''ocr''],
      agent_status = Some ''idle'',
      metadata = Some \<lparr>currentTasks = Some 1, maxConcurrentTasks = Some 3\<rparr>,
      socket_id = ''c1'', registered_at = 0, agent_environment = ''development''\<rparr>"

definition agent_a2 :: agent where
  "agent_a2 =
     \<lparr>agent_id = ''a2'', agent_type = Some ''worker'', agent_capabilities = Some [''nlp''],
      agent_status = Some ''busy'',
      metadata = Some \<lparr>currentTasks = Some 0, maxConcurrentTasks = Some 2\<rparr>,
      socket_id = ''c1'', registered_at = 0, agent_environment = ''development''\<rparr>"

definition agent_a3 :: agent where
  "agent_a3 =
     \<lparr>agent_id = ''a3'', agent_type = Some ''worker'', agent_capabilities = Some [''nlp''],
      agent_status = Some ''idle'',
      metadata = Some \<lparr>currentTasks = Some 1, maxConcurrentTasks = None\<rparr>,
      socket_id = ''c2'', registered_at = 0, agent_environment = ''development''\<rparr>"

definition agent_a4 :: agent where
  "agent_a4 =
     \<lparr>agent_id = ''a4'', agent_type = Some ''planner'', agent_capabilities = Some [''nlp''],
      agent_status = Some ''idle'', metadata = None,
      socket_id = ''c2'', registered_at = 0, agent_environment = ''development''\<rparr>"

definition session_s1 :: session where
  "session_s1 =
     (new_session ''s1'' 0 0)
       \<lparr>agents := [(''a1'', agent_a1), (''a2'', agent_a2), (''a3'', agent_a3), (''a4'', agent_a4)]\<rparr>"

definition session_s2 :: session where
  "session_s2 = (new_session ''s2'' 0 0)\<lparr>agents := [(''a1'', agent_a1)]\<rparr>"

definition task_t0 :: task where
  "task_t0 =
     \<lparr>definition_of =
        \<lparr>task_id = Some ''t0'', task_sessionId = None, task_requirements = None,
         collaborationMode = None\<rparr>,
      startTime = 0, task_status = ''started'', task_environment = ''development'',
      lastProgress = None, lastUpdate = None\<rparr>"

definition session_default :: session where
  "session_default = (new_session ''default'' 0 0)\<lparr>tasks := [(''t0'', task_t0)]\<rparr>"

definition example_world :: world where
  "example_world =
     \<lparr>active_sessions =
        [(''s1'', session_s1), (''s2'', session_s2), (''default'', session_default)],
      registered_agents =
        [(''a1'', agent_a1), (''a2'', agent_a2), (''a3'', agent_a3), (''a4'', agent_a4)],
      stats = \<lparr>start_time = 0, connections = 2, messages_processed = 0, tasks_completed = 0,
               errors = 0\<rparr>,
      environment = ''development'', clock = example_clock, ticks = 1, outbox = []\<rparr>"

text \<open>
  Tasks: \<open>task_nlp\<close> asks session \<open>s1\<close> for capability \<open>nlp\<close> with no mode given;
  \<open>task_planner\<close> asks it for the same capability from an agent of type \<open>planner\<close>;
  \<open>task_vision\<close> asks it for a capability no agent has; \<open>task_lost\<close> names a session
  that does not exist; \<open>task_anywhere\<close> names no session.
\<close>

definition task_nlp :: task_definition where
  "task_nlp =
     \<lparr>task_id = Some ''t1'', task_sessionId = Some ''s1'',
      task_requirements = Some \<lparr>req_capabilities = Some [''nlp''], req_agentTypes = None\<rparr>,
      collaborationMode = None\<rparr>"

definition task_planner :: task_definition where
  "task_planner =
     \<lparr>task_id = Some ''t5'', task_sessionId = Some ''s1'',
      task_requirements =
        Some \<lparr>req_capabilities = Some [''nlp''], req_agentTypes = Some [''planner'']\<rparr>,
      collaborationMode = None\<rparr>"

definition task_vision :: task_definition where
  "task_vision =
     \<lparr>task_id = Some ''t2'', task_sessionId = Some ''s1'',
      task_requirements = Some \<lparr>req_capabilities = Some [''vision''], req_agentTypes = None\<rparr>,
      collaborationMode = Some ''sequential''\<rparr>"

definition task_lost :: task_definition where
  "task_lost =
     \<lparr>task_id = Some ''t3'', task_sessionId = Some ''s9'', task_requirements = None,
      collaborationMode = None\<rparr>"

definition task_anywhere :: task_definition where
  "task_anywhere =
     \<lparr>task_id = Some ''t4'', task_sessionId = None, task_requirements = None,
      collaborationMode = None\<rparr>"

text \<open>
  A progress report for a task \<open>t9\<close> that session \<open>s1\<close> does not hold, a report that
  task \<open>t0\<close> is completed and that names no session, and collaboration requests to an
  agent \<open>ghost\<close> that nobody registered and to nobody in particular.
\<close>

definition progress_unknown :: progress_data where
  "progress_unknown =
     \<lparr>progress_sessionId = Some ''s1'', progress_taskId = Some ''t9'',
      progress_status = Some ''completed'', progress_fields = []\<rparr>"

definition progress_anywhere :: progress_data where
  "progress_anywhere =
     \<lparr>progress_sessionId = None, progress_taskId = Some ''t0'',
      progress_status = Some ''completed'', progress_fields = []\<rparr>"

definition request_ghost :: request_data where
  "request_ghost =
     \<lparr>request_sessionId = Some ''s1'', requestId = Some ''r1'', targetAgent = Some ''ghost'',
      request_fields = []\<rparr>"

definition request_anywhere :: request_data where
  "request_anywhere =
     \<lparr>request_sessionId = None, requestId = Some ''r2'', targetAgent = None,
      request_fields = []\<rparr>"

section \<open>Facts about dictionaries and the state\<close>

lemma dict_get_set: "dict_get (dict_set k v d) k' = (if k' = k then Some v else dict_get d k')"
  by (induction d) (auto simp: dict_get_def)



lemma dict_keys_set_present: "dict_has k d \<Longrightarrow> dict_keys (dict_set k v d) = dict_keys d"
  by (induction d) (auto simp: dict_keys_def dict_has_def dict_get_def)

lemma dict_set_set: "dict_set k v (dict_set k v' d) = dict_set k v d"
  by (induction d) auto


lemma update_session_fields [simp]:
  "stats (update_session k f w) = stats w"
  "outbox (update_session k f w) = outbox w"
  "ticks (update_session k f w) = ticks w"
  "clock (update_session k f w) = clock w"
  "environment (update_session k f w) = environment w"
  "registered_agents (update_session k f w) = registered_agents w"
  by (simp_all add: update_session_def split: option.splits)

lemma update_session_get:
  "dict_get (active_sessions (update_session k f w)) k' =
     (if k' = k then map_option f (dict_get (active_sessions w) k)
      else dict_get (active_sessions w) k')"
  by (auto simp: update_session_def dict_get_set split: option.splits)

lemma update_session_has [simp]:
  "dict_has k' (active_sessions (update_session k f w)) = dict_has k' (active_sessions w)"
  by (auto simp: dict_has_def update_session_get)

lemma update_session_keys [simp]:
  "dict_keys (active_sessions (update_session k f w)) = dict_keys (active_sessions w)"
  by (auto simp: update_session_def dict_keys_set_present dict_has_def split: option.splits)

lemma record_task_fields [simp]:
  "stats (record_task k tid td w) = stats w"
  "outbox (record_task k tid td w) = outbox w"
  "clock (record_task k tid td w) = clock w"
  "environment (record_task k tid td w) = environment w"
  "registered_agents (record_task k tid td w) = registered_agents w"
  by (simp_all add: record_task_def now_ms_def Let_def)

lemma record_task_ticks:
  "ticks (record_task k tid td w) = (if dict_has k (active_sessions w) then ticks w + 2 else ticks w)"
  by (simp add: record_task_def now_ms_def Let_def)

lemma record_task_absent:
  "\<not> dict_has k (active_sessions w) \<Longrightarrow> record_task k tid td w = w"
  by (simp add: record_task_def)

lemma record_task_get:
  "dict_get (active_sessions (record_task k tid td w)) k' =
     (if k' = k then
        map_option (\<lambda>s. s\<lparr>tasks := dict_set tid
                               \<lparr>definition_of = td, startTime = clock w (ticks w) * 1000,
                                task_status = ''started'', task_environment = environment w,
                                lastProgress = None, lastUpdate = None\<rparr> (tasks s),
                            session_metrics := (session_metrics s)\<lparr>totalTasks := totalTasks (session_metrics s) + 1\<rparr>,
                            lastActivity := clock w (Suc (ticks w)) * 1000\<rparr>)
          (dict_get (active_sessions w) k)
      else dict_get (active_sessions w) k')"
  by (auto simp: record_task_def now_ms_def Let_def update_session_get dict_has_def option.map_comp comp_def
      split: option.splits)

lemma find_suitable_agents_cong:
  "map_option agents (dict_get (active_sessions w') k) = map_option agents (dict_get (active_sessions w) k) \<Longrightarrow>
   find_suitable_agents td k w' = find_suitable_agents td k w"
  by (auto simp: find_suitable_agents_def split: option.splits)

lemma find_suitable_agents_record_task:
  "find_suitable_agents td k (record_task k' tid td' w) = find_suitable_agents td k w"
  by (rule find_suitable_agents_cong) (auto simp: record_task_get option.map_comp comp_def)

lemma find_suitable_agents_bump [simp]:
  "find_suitable_agents td k (bump_messages w) = find_suitable_agents td k w"
  by (simp add: find_suitable_agents_def bump_messages_def)

lemma find_suitable_agents_absent:
  "\<not> dict_has k (active_sessions w) \<Longrightarrow> find_suitable_agents td k w = []"
  by (simp add: find_suitable_agents_def dict_has_def)

lemma emitted_since_append: "outbox w' = outbox w @ es \<Longrightarrow> emitted_since w w' = es"
  by (simp add: emitted_since_def)

lemma bump_messages_fields [simp]:
  "active_sessions (bump_messages w) = active_sessions w"
  "registered_agents (bump_messages w) = registered_agents w"
  "outbox (bump_messages w) = outbox w"
  "ticks (bump_messages w) = ticks w"
  "clock (bump_messages w) = clock w"
  "environment (bump_messages w) = environment w"
  "stats (bump_messages w) = (stats w)\<lparr>messages_processed := messages_processed (stats w) + 1\<rparr>"
  by (simp_all add: bump_messages_def)

lemma dict_set_absent: "\<not> dict_has k d \<Longrightarrow> dict_set k v d = d @ [(k, v)]"
  by (induction d) (auto simp: dict_has_def dict_get_def)

lemma dict_get_append_new:
  "\<not> dict_has k d \<Longrightarrow> dict_get (d @ [(k, v)]) k = Some v"
  by (induction d) (auto simp: dict_has_def dict_get_def)

lemma example_s1: "dict_get (active_sessions example_world) ''s1'' = Some session_s1"
  by (simp add: example_world_def dict_get_def)

lemma example_nlp:
  "find_suitable_agents task_nlp ''s1'' example_world = [agent_a1, agent_a4]"
  by (simp add: find_suitable_agents_def example_s1 task_nlp_def requirements_of_def
        session_s1_def type_excluded_def has_capabilities_def current_tasks_of_def
        max_tasks_of_def agent_a1_def agent_a2_def agent_a3_def agent_a4_def)

lemma example_vision:
  "find_suitable_agents task_vision ''s1'' example_world = []"
  by (simp add: find_suitable_agents_def example_s1 task_vision_def requirements_of_def
        session_s1_def type_excluded_def has_capabilities_def current_tasks_of_def
        max_tasks_of_def agent_a1_def agent_a2_def agent_a3_def agent_a4_def)

section \<open>Matcher: who is suitable, and in which order\<close>

lemma suitable_loop_filter:
  "suitable_loop rt rc ags acc =
     acc @ filter (\<lambda>a. \<not> type_excluded rt a \<and> has_capabilities rc a \<and>
                        agent_status a = Some ''idle'' \<and> current_tasks_of a < max_tasks_of a)
             (dict_values ags)"
  by (induction ags arbitrary: acc) (auto simp: dict_values_def)

lemma has_capabilities_subset:
  "has_capabilities rc a = (set rc \<subseteq> set (get_or (agent_capabilities a) []))"
  by (auto simp: has_capabilities_def list_all_iff)

lemma type_excluded_iff:
  "(\<not> type_excluded rt a) = (rt = [] \<or> (\<exists>t. agent_type a = Some t \<and> t \<in> set rt))"
  by (auto simp: type_excluded_def split: option.splits)

lemma example_planner:
  "find_suitable_agents task_planner ''s1'' example_world = [agent_a4]"
  by (simp add: find_suitable_agents_def example_s1 task_planner_def requirements_of_def
        session_s1_def type_excluded_def has_capabilities_def current_tasks_of_def
        max_tasks_of_def agent_a1_def agent_a2_def agent_a3_def agent_a4_def)

text \<open>
  Claim C1.  In an existing session the matcher returns the agents of the session that
  pass its four tests, in the order in which the session's dictionary holds them and with
  no other reordering.  The tests are written on the fields themselves: the agent's
  \<^verbatim>\<open>type\<close> is in the task's \<^verbatim>\<open>agentTypes\<close> (or that list is empty or absent), its
  \<^verbatim>\<open>capabilities\<close> include every required capability, its \<^verbatim>\<open>status\<close> is \<^verbatim>\<open>idle\<close>, and
  its \<^verbatim>\<open>metadata.currentTasks\<close> (0 when absent) is less than its
  \<^verbatim>\<open>metadata.maxConcurrentTasks\<close> (1 when absent).  Hence an agent of the session that
  passes the first two is returned if and only if it passes the last two.
\<close>

theorem find_suitable_agents_matches:
  assumes "dict_get (active_sessions w) session_id = Some s"
    and "required_capabilities =
           (case task_requirements td of
              None \<Rightarrow> []
            | Some r \<Rightarrow> (case req_capabilities r of None \<Rightarrow> [] | Some cs \<Rightarrow> cs))"
    and "required_agent_types =
           (case task_requirements td of
              None \<Rightarrow> []
            | Some r \<Rightarrow> (case req_agentTypes r of None \<Rightarrow> [] | Some ts \<Rightarrow> ts))"
  shows "find_suitable_agents td session_id w =
           filter
             (\<lambda>a. (required_agent_types = [] \<or>
                   (\<exists>t. agent_type a = Some t \<and> t \<in> set required_agent_types)) \<and>
                  set required_capabilities
                    \<subseteq> set (case agent_capabilities a of None \<Rightarrow> [] | Some cs \<Rightarrow> cs) \<and>
                  agent_status a = Some ''idle'' \<and>
                  (case metadata a of
                     None \<Rightarrow> 0
                   | Some m \<Rightarrow> (case currentTasks m of None \<Rightarrow> 0 | Some n \<Rightarrow> n)) <
                  (case metadata a of
                     None \<Rightarrow> 1
                   | Some m \<Rightarrow> (case maxConcurrentTasks m of None \<Rightarrow> 1 | Some n \<Rightarrow> n)))
             (map snd (agents s)) \<and>
         (\<forall>a \<in> set (map snd (agents s)).
            set required_capabilities
              \<subseteq> set (case agent_capabilities a of None \<Rightarrow> [] | Some cs \<Rightarrow> cs) \<and>
            (required_agent_types = [] \<or>
             (\<exists>t. agent_type a = Some t \<and> t \<in> set required_agent_types)) \<longrightarrow>
            (a \<in> set (find_suitable_agents td session_id w) \<longleftrightarrow>
               agent_status a = Some ''idle'' \<and>
               (case metadata a of
                  None \<Rightarrow> 0
                | Some m \<Rightarrow> (case currentTasks m of None \<Rightarrow> 0 | Some n \<Rightarrow> n)) <
               (case metadata a of
                  None \<Rightarrow> 1
                | Some m \<Rightarrow> (case maxConcurrentTasks m of None \<Rightarrow> 1 | Some n \<Rightarrow> n))))"
proof -
  have rc: "get_or (req_capabilities (requirements_of td)) [] = required_capabilities"
    by (simp add: assms(2) requirements_of_def split: option.splits)
  have rt: "get_or (req_agentTypes (requirements_of td)) [] = required_agent_types"
    by (simp add: assms(3) requirements_of_def split: option.splits)
  have caps: "get_or (agent_capabilities a) [] =
                (case agent_capabilities a of None \<Rightarrow> [] | Some cs \<Rightarrow> cs)" for a :: agent
    by (simp split: option.splits)
  have cur: "current_tasks_of a =
               (case metadata a of
                  None \<Rightarrow> 0
                | Some m \<Rightarrow> (case currentTasks m of None \<Rightarrow> 0 | Some n \<Rightarrow> n))" for a :: agent
    by (simp add: current_tasks_of_def split: option.splits)
  have lim: "max_tasks_of a =
               (case metadata a of
                  None \<Rightarrow> 1
                | Some m \<Rightarrow> (case maxConcurrentTasks m of None \<Rightarrow> 1 | Some n \<Rightarrow> n))" for a :: agent
    by (simp add: max_tasks_of_def split: option.splits)
  have eq: "find_suitable_agents td session_id w =
           filter
             (\<lambda>a. (required_agent_types = [] \<or>
                   (\<exists>t. agent_type a = Some t \<and> t \<in> set required_agent_types)) \<and>
                  set required_capabilities
                    \<subseteq> set (case agent_capabilities a of None \<Rightarrow> [] | Some cs \<Rightarrow> cs) \<and>
                  agent_status a = Some ''idle'' \<and>
                  (case metadata a of
                     None \<Rightarrow> 0
                   | Some m \<Rightarrow> (case currentTasks m of None \<Rightarrow> 0 | Some n \<Rightarrow> n)) <
                  (case metadata a of
                     None \<Rightarrow> 1
                   | Some m \<Rightarrow> (case maxConcurrentTasks m of None \<Rightarrow> 1 | Some n \<Rightarrow> n)))
             (map snd (agents s))"
    using assms(1)
    by (simp add: find_suitable_agents_def suitable_loop_filter rc rt has_capabilities_subset
          type_excluded_iff caps cur lim dict_values_def)
  show ?thesis
    unfolding eq by auto
qed

theorem find_suitable_agents_matches_witness:
  "dict_get (active_sessions example_world) ''s1'' = Some session_s1 \<and>
   find_suitable_agents task_nlp ''s1'' example_world = [agent_a1, agent_a4] \<and>
   agent_a2 \<notin> set (find_suitable_agents task_nlp ''s1'' example_world) \<and>
   agent_a3 \<notin> set (find_suitable_agents task_nlp ''s1'' example_world) \<and>
   find_suitable_agents task_planner ''s1'' example_world = [agent_a4]"
proof -
  have n: "[''nlp''] =
             (case task_requirements task_nlp of
                None \<Rightarrow> []
              | Some r \<Rightarrow> (case req_capabilities r of None \<Rightarrow> [] | Some cs \<Rightarrow> cs))"
     "[] =
             (case task_requirements task_nlp of
                None \<Rightarrow> []
              | Some r \<Rightarrow> (case req_agentTypes r of None \<Rightarrow> [] | Some ts \<Rightarrow> ts))"
    by (simp_all add: task_nlp_def)
  have p: "[''nlp''] =
             (case task_requirements task_planner of
                None \<Rightarrow> []
              | Some r \<Rightarrow> (case req_capabilities r of None \<Rightarrow> [] | Some cs \<Rightarrow> cs))"
     "[''planner''] =
             (case task_requirements task_planner of
                None \<Rightarrow> []
              | Some r \<Rightarrow> (case req_agentTypes r of None \<Rightarrow> [] | Some ts \<Rightarrow> ts))"
    by (simp_all add: task_planner_def)
  have ags: "map snd (agents session_s1) = [agent_a1, agent_a2, agent_a3, agent_a4]"
    by (simp add: session_s1_def)
  have "find_suitable_agents task_nlp ''s1'' example_world = [agent_a1, agent_a4]"
    using find_suitable_agents_matches [OF example_s1 n]
    by (simp add: ags) (simp add: agent_a1_def agent_a2_def agent_a3_def agent_a4_def)
  moreover have "find_suitable_agents task_planner ''s1'' example_world = [agent_a4]"
    using find_suitable_agents_matches [OF example_s1 p]
    by (simp add: ags) (simp add: agent_a1_def agent_a2_def agent_a3_def agent_a4_def)
  moreover have "agent_a2 \<noteq> agent_a1" "agent_a2 \<noteq> agent_a4" "agent_a3 \<noteq> agent_a1"
    "agent_a3 \<noteq> agent_a4"
    by (simp_all add: agent_a1_def agent_a2_def agent_a3_def agent_a4_def)
  ultimately show ?thesis
    using example_s1 by simp
qed

section \<open>Dispatcher: starting a task\<close>

lemma start_task_no_agents:
  assumes "task_id td = Some tid" "tid \<noteq> []"
    and "find_suitable_agents td (get_or (task_sessionId td) ''default'') w = []"
  shows "start_task sid td w =
    (let session_id = get_or (task_sessionId td) ''default'';
         w2 = record_task session_id tid td (bump_messages w);
         w3 = w2\<lparr>ticks := Suc (ticks w2)\<rparr>
     in w3\<lparr>outbox := outbox w @ [\<lparr>event = TaskError tid ''No suitable agents found for task''
                                         (requirements_of td)
                                         (available_agents session_id w2) (clock w (ticks w2) * 1000),
                                 room = Some session_id\<rparr>],
            stats := (stats w)\<lparr>messages_processed := messages_processed (stats w) + 1,
                               errors := errors (stats w) + 1\<rparr>\<rparr>)"
  using assms
  by (simp add: start_task_def Let_def find_suitable_agents_record_task now_ms_def emit_def)

text \<open>
  Claim C2, as the code has it.  When the task has an identifier, its session exists and
  the matcher finds nobody, \<^verbatim>\<open>start_task\<close> sends exactly one event, a \<^verbatim>\<open>task-error\<close> to
  the session's room that carries the task id, the requirements and the number of agents
  in the session; it sends no \<^verbatim>\<open>task-assigned\<close>; the error counter of the server and the
  session's \<^verbatim>\<open>totalTasks\<close> grow by one; and the task is stored with the status
  \<^verbatim>\<open>started\<close> that \<^verbatim>\<open>start_task\<close> gave it, not \<^verbatim>\<open>error\<close>.  (The matcher is asked
  after the task was recorded; recording does not change the session's agents, so its
  answer is the one for the state before the call.)
\<close>

theorem start_task_no_suitable_agent:
  assumes "task_id td = Some tid" and "tid \<noteq> []"
    and "dict_get (active_sessions w) (get_or (task_sessionId td) ''default'') = Some s"
    and "find_suitable_agents td (get_or (task_sessionId td) ''default'') w = []"
  shows "emitted_since w (start_task sid td w) =
           [\<lparr>event = TaskError tid ''No suitable agents found for task'' (requirements_of td)
                      (int (length (agents s))) (clock w (ticks w + 2) * 1000),
             room = Some (get_or (task_sessionId td) ''default'')\<rparr>] \<and>
         filter (\<lambda>e. event_name (event e) = ''task-assigned'')
           (emitted_since w (start_task sid td w)) = [] \<and>
         map_option task_status
           (stored_task (start_task sid td w) (get_or (task_sessionId td) ''default'') tid) =
           Some ''started'' \<and>
         errors (stats (start_task sid td w)) = errors (stats w) + 1 \<and>
         map_option (totalTasks \<circ> session_metrics)
           (dict_get (active_sessions (start_task sid td w)) (get_or (task_sessionId td) ''default'')) =
           Some (totalTasks (session_metrics s) + 1)"
proof -
  let ?k = "get_or (task_sessionId td) ''default''"
  have has: "dict_has ?k (active_sessions (bump_messages w))"
    using assms(3) by (simp add: dict_has_def)
  have get: "dict_get (active_sessions (bump_messages w)) ?k = Some s"
    using assms(3) by simp
  note eq = start_task_no_agents [OF assms(1,2,4), of sid]
  have ob: "outbox (start_task sid td w) = outbox w @
          [\<lparr>event = TaskError tid ''No suitable agents found for task'' (requirements_of td)
                      (int (length (agents s))) (clock w (ticks w + 2) * 1000),
             room = Some ?k\<rparr>]"
    using has get
    by (simp add: eq Let_def available_agents_def record_task_get record_task_ticks)
  have em: "emitted_since w (start_task sid td w) =
          [\<lparr>event = TaskError tid ''No suitable agents found for task'' (requirements_of td)
                      (int (length (agents s))) (clock w (ticks w + 2) * 1000),
             room = Some ?k\<rparr>]"
    by (rule emitted_since_append [OF ob])
  have st: "map_option task_status (stored_task (start_task sid td w) ?k tid) = Some ''started''"
    using get by (simp add: eq Let_def stored_task_def record_task_get dict_get_set)
  have er: "errors (stats (start_task sid td w)) = errors (stats w) + 1"
    by (simp add: eq Let_def)
  have tt: "map_option (totalTasks \<circ> session_metrics)
           (dict_get (active_sessions (start_task sid td w)) ?k) =
           Some (totalTasks (session_metrics s) + 1)"
    using get by (simp add: eq Let_def record_task_get)
  show ?thesis
    using em st er tt by simp
qed

theorem start_task_no_suitable_agent_witness:
  "task_id task_vision = Some ''t2'' \<and>
   dict_get (active_sessions example_world) ''s1'' = Some session_s1 \<and>
   find_suitable_agents task_vision ''s1'' example_world = [] \<and>
   emitted_since example_world (start_task ''c1'' task_vision example_world) =
     [\<lparr>event = TaskError ''t2'' ''No suitable agents found for task''
                \<lparr>req_capabilities = Some [''vision''], req_agentTypes = None\<rparr> 4 3000,
       room = Some ''s1''\<rparr>] \<and>
   map_option task_status (stored_task (start_task ''c1'' task_vision example_world) ''s1'' ''t2'') =
     Some ''started'' \<and>
   errors (stats (start_task ''c1'' task_vision example_world)) = 1"
proof -
  have h1: "task_id task_vision = Some ''t2''" by (simp add: task_vision_def)
  have h2: "''t2'' \<noteq> []" by simp
  have k: "get_or (task_sessionId task_vision) ''default'' = ''s1''" by (simp add: task_vision_def)
  have h3: "dict_get (active_sessions example_world)
              (get_or (task_sessionId task_vision) ''default'') = Some session_s1"
    by (simp add: k example_s1)
  have h4: "find_suitable_agents task_vision (get_or (task_sessionId task_vision) ''default'')
              example_world = []"
    by (simp add: k example_vision)
  have r: "requirements_of task_vision = \<lparr>req_capabilities = Some [''vision''], req_agentTypes = None\<rparr>"
    by (simp add: requirements_of_def task_vision_def)
  have c: "clock example_world (Suc (Suc (ticks example_world))) = 3"
     "errors (stats example_world) = 0" "length (agents session_s1) = 4"
    by (simp_all add: example_world_def example_clock_def session_s1_def)
  show ?thesis
    using start_task_no_suitable_agent [OF h1 h2 h3 h4, of "''c1''"] h1 example_s1 example_vision
    by (simp add: k r c)
qed

text \<open>
  Claim C2 as stated fails: in the scenario, task \<open>t2\<close> finds no agent in session \<open>s1\<close>
  and its stored status is not \<^verbatim>\<open>error\<close>.
\<close>

theorem start_task_unmatched_status_counterexample:
  "task_id task_vision = Some ''t2'' \<and>
   dict_has ''s1'' (active_sessions example_world) \<and>
   find_suitable_agents task_vision ''s1'' example_world = [] \<and>
   map_option task_status (stored_task (start_task ''c1'' task_vision example_world) ''s1'' ''t2'') \<noteq>
     Some ''error''"
proof -
  have h1: "task_id task_vision = Some ''t2''" by (simp add: task_vision_def)
  have k: "get_or (task_sessionId task_vision) ''default'' = ''s1''" by (simp add: task_vision_def)
  have h4: "find_suitable_agents task_vision (get_or (task_sessionId task_vision) ''default'')
              example_world = []"
    by (simp add: k example_vision)
  have "map_option task_status (stored_task (start_task ''c1'' task_vision example_world) ''s1'' ''t2'') =
     Some ''started''"
    using start_task_no_agents [OF h1 _ h4, of "''c1''"] example_s1
    by (simp add: k Let_def stored_task_def record_task_get dict_get_set)
  then show ?thesis
    using h1 example_s1 example_vision by (auto simp: dict_has_def)
qed

text \<open>
  Claim C3 as stated fails: in the scenario, task \<open>t3\<close> names session \<open>s9\<close>, which does
  not exist, and after \<^verbatim>\<open>start_task\<close> there is still no session \<open>s9\<close> and no record of
  the task.
\<close>

theorem start_task_missing_session_counterexample:
  "task_id task_lost = Some ''t3'' \<and> task_sessionId task_lost = Some ''s9'' \<and>
   \<not> dict_has ''s9'' (active_sessions example_world) \<and>
   \<not> dict_has ''s9'' (active_sessions (start_task ''c1'' task_lost example_world)) \<and>
   stored_task (start_task ''c1'' task_lost example_world) ''s9'' ''t3'' = None"
proof -
  have h1: "task_id task_lost = Some ''t3''" "task_sessionId task_lost = Some ''s9''"
    by (simp_all add: task_lost_def)
  have k: "get_or (task_sessionId task_lost) ''default'' = ''s9''" by (simp add: task_lost_def)
  have no: "\<not> dict_has ''s9'' (active_sessions example_world)"
    by (simp add: example_world_def dict_has_def dict_get_def)
  have h4: "find_suitable_agents task_lost (get_or (task_sessionId task_lost) ''default'')
              example_world = []"
    unfolding k using no by (rule find_suitable_agents_absent)
  have "active_sessions (start_task ''c1'' task_lost example_world) = active_sessions example_world"
    using start_task_no_agents [OF h1(1) _ h4, of "''c1''"] no
    by (simp add: k Let_def record_task_absent)
  then show ?thesis
    using h1 no by (simp add: stored_task_def dict_has_def)
qed

text \<open>
  Claim C3, as the code has it.  The block that records the task is guarded by
  \<^verbatim>\<open>if session_id in active_sessions\<close>.  When the task has an identifier and its
  \<^verbatim>\<open>sessionId\<close> names no session, \<^verbatim>\<open>start_task\<close> creates no session and records
  nothing: the table of sessions is unchanged.  The matcher then finds nobody, so the one
  event sent is a \<^verbatim>\<open>task-error\<close> with zero available agents, to the room of that name,
  and the error counter grows by one.
\<close>

theorem start_task_missing_session:
  assumes "task_id td = Some tid" and "tid \<noteq> []"
    and "\<not> dict_has (get_or (task_sessionId td) ''default'') (active_sessions w)"
  shows "active_sessions (start_task sid td w) = active_sessions w \<and>
         emitted_since w (start_task sid td w) =
           [\<lparr>event = TaskError tid ''No suitable agents found for task'' (requirements_of td)
                      0 (clock w (ticks w) * 1000),
             room = Some (get_or (task_sessionId td) ''default'')\<rparr>] \<and>
         errors (stats (start_task sid td w)) = errors (stats w) + 1"
proof -
  let ?k = "get_or (task_sessionId td) ''default''"
  have none: "find_suitable_agents td ?k w = []"
    using assms(3) by (rule find_suitable_agents_absent)
  have has: "\<not> dict_has ?k (active_sessions (bump_messages w))"
    using assms(3) by simp
  note eq = start_task_no_agents [OF assms(1,2) none, of sid]
  have rt: "record_task ?k tid td (bump_messages w) = bump_messages w"
    using has by (rule record_task_absent)
  have a: "active_sessions (start_task sid td w) = active_sessions w"
    by (simp add: eq Let_def rt)
  have av: "available_agents ?k (bump_messages w) = 0"
    using has by (simp add: available_agents_def dict_has_def)
  have ob: "outbox (start_task sid td w) = outbox w @
           [\<lparr>event = TaskError tid ''No suitable agents found for task'' (requirements_of td)
                      0 (clock w (ticks w) * 1000),
             room = Some ?k\<rparr>]"
    by (simp add: eq Let_def rt av)
  have er: "errors (stats (start_task sid td w)) = errors (stats w) + 1"
    by (simp add: eq Let_def)
  show ?thesis
    using a emitted_since_append [OF ob] er by simp
qed

theorem start_task_missing_session_witness:
  "task_id task_lost = Some ''t3'' \<and>
   \<not> dict_has ''s9'' (active_sessions example_world) \<and>
   active_sessions (start_task ''c1'' task_lost example_world) = active_sessions example_world \<and>
   emitted_since example_world (start_task ''c1'' task_lost example_world) =
     [\<lparr>event = TaskError ''t3'' ''No suitable agents found for task''
                \<lparr>req_capabilities = None, req_agentTypes = None\<rparr> 0 1000,
       room = Some ''s9''\<rparr>] \<and>
   errors (stats (start_task ''c1'' task_lost example_world)) = 1"
proof -
  have h1: "task_id task_lost = Some ''t3''" by (simp add: task_lost_def)
  have h2: "''t3'' \<noteq> []" by simp
  have k: "get_or (task_sessionId task_lost) ''default'' = ''s9''" by (simp add: task_lost_def)
  have no: "\<not> dict_has ''s9'' (active_sessions example_world)"
    by (simp add: example_world_def dict_has_def dict_get_def)
  have h3: "\<not> dict_has (get_or (task_sessionId task_lost) ''default'') (active_sessions example_world)"
    by (simp add: k no)
  have r: "requirements_of task_lost = \<lparr>req_capabilities = None, req_agentTypes = None\<rparr>"
    by (simp add: requirements_of_def task_lost_def)
  have c: "clock example_world (ticks example_world) = 1"
     "errors (stats example_world) = 0"
    by (simp_all add: example_world_def example_clock_def)
  show ?thesis
    using start_task_missing_session [OF h1 h2 h3, of "''c1''"] h1 no
    by (simp add: k r c)
qed

text \<open>
  Claim C5.  When the task has an identifier, its collaboration mode is absent or
  \<^verbatim>\<open>sequential\<close>, and the matcher's result is not empty, \<^verbatim>\<open>start_task\<close> sends exactly
  one event: a \<^verbatim>\<open>task-assigned\<close> to the session's room, naming the first agent of the
  matcher's result.
\<close>

theorem start_task_sequential:
  assumes "task_id td = Some tid" and "tid \<noteq> []"
    and "collaborationMode td = None \<or> collaborationMode td = Some ''sequential''"
    and "find_suitable_agents td (get_or (task_sessionId td) ''default'') w = a # rest"
  shows "emitted_since w (start_task sid td w) =
           [\<lparr>event = TaskAssigned tid (agent_id a) ''sequential'' td (clock w (ticks w + 2) * 1000),
             room = Some (get_or (task_sessionId td) ''default'')\<rparr>]"
proof -
  let ?k = "get_or (task_sessionId td) ''default''"
  have has: "dict_has ?k (active_sessions w)"
    using assms(4) find_suitable_agents_absent [of ?k w td] by auto
  then have has': "dict_has ?k (active_sessions (bump_messages w))"
    by simp
  have mode: "get_or (collaborationMode td) ''sequential'' \<noteq> ''parallel''"
    using assms(3) by auto
  have ob: "outbox (start_task sid td w) = outbox w @
      [\<lparr>event = TaskAssigned tid (agent_id a) ''sequential'' td (clock w (ticks w + 2) * 1000),
             room = Some ?k\<rparr>]"
    using assms(1,2,4) mode has'
    by (simp add: start_task_def Let_def find_suitable_agents_record_task now_ms_def emit_def
          record_task_ticks)
  show ?thesis by (rule emitted_since_append [OF ob])
qed

theorem start_task_sequential_witness:
  "task_id task_nlp = Some ''t1'' \<and> collaborationMode task_nlp = None \<and>
   find_suitable_agents task_nlp ''s1'' example_world = [agent_a1, agent_a4] \<and>
   emitted_since example_world (start_task ''c1'' task_nlp example_world) =
     [\<lparr>event = TaskAssigned ''t1'' ''a1'' ''sequential'' task_nlp 3000, room = Some ''s1''\<rparr>]"
proof -
  have h1: "task_id task_nlp = Some ''t1''" by (simp add: task_nlp_def)
  have h2: "''t1'' \<noteq> []" by simp
  have h3: "collaborationMode task_nlp = None \<or> collaborationMode task_nlp = Some ''sequential''"
    by (simp add: task_nlp_def)
  have k: "get_or (task_sessionId task_nlp) ''default'' = ''s1''" by (simp add: task_nlp_def)
  have h4: "find_suitable_agents task_nlp (get_or (task_sessionId task_nlp) ''default'')
              example_world = agent_a1 # [agent_a4]"
    by (simp add: k example_nlp)
  have c: "clock example_world (Suc (Suc (ticks example_world))) = 3" "agent_id agent_a1 = ''a1''"
    by (simp_all add: example_world_def example_clock_def agent_a1_def)
  have m: "collaborationMode task_nlp = None" by (simp add: task_nlp_def)
  show ?thesis
    using start_task_sequential [OF h1 h2 h3 h4, of "''c1''"] h1 m example_nlp
    by (simp add: k c)
qed


section \<open>Dispatcher: progress reports\<close>

lemma update_progress_unknown:
  assumes "dict_get (active_sessions w) k = Some s" and "dict_get (tasks s) tid = None"
  shows "update_progress k tid pd w =
           w\<lparr>ticks := Suc (ticks w),
             active_sessions :=
               dict_set k
                 (s\<lparr>lastActivity := clock w (ticks w) * 1000,
                    session_metrics :=
                      (if progress_status pd = Some ''completed'' then
                         (session_metrics s)\<lparr>completedTasks := completedTasks (session_metrics s) + 1\<rparr>
                       else session_metrics s)\<rparr>)
                 (active_sessions w),
             stats :=
               (if progress_status pd = Some ''completed'' then
                  (stats w)\<lparr>tasks_completed := tasks_completed (stats w) + 1\<rparr>
                else stats w)\<rparr>"
  using assms
  by (simp add: update_progress_def Let_def now_ms_def update_session_def dict_get_set dict_set_set)

lemma update_progress_fields [simp]:
  "outbox (update_progress k tid pd w) = outbox w"
  "clock (update_progress k tid pd w) = clock w"
  "environment (update_progress k tid pd w) = environment w"
  "registered_agents (update_progress k tid pd w) = registered_agents w"
  by (simp_all add: update_progress_def Let_def now_ms_def split: option.splits)

lemma update_progress_ticks:
  "ticks (update_progress k tid pd w) =
     (if stored_task w k tid = None then Suc (ticks w) else Suc (Suc (ticks w)))"
  by (simp add: update_progress_def Let_def now_ms_def stored_task_def split: option.splits)

lemma agent_progress_ticks:
  "ticks (agent_progress sid pd w) =
     (case progress_taskId pd of
        None \<Rightarrow> ticks w + 2
      | Some tid \<Rightarrow>
          if dict_has (get_or (progress_sessionId pd) ''default'') (active_sessions w) \<and> tid \<noteq> []
          then ticks (update_progress (get_or (progress_sessionId pd) ''default'') tid pd
                        (bump_messages w)) + 2
          else ticks w + 2)"
  by (simp add: agent_progress_def Let_def now_ms_def emit_def split: option.splits)

lemma example_s1_no_tasks: "dict_get (tasks session_s1) tid = None"
  by (simp add: session_s1_def new_session_def dict_get_def)

lemma example_s1_unknown_task: "stored_task example_world ''s1'' ''t9'' = None"
  by (simp add: stored_task_def example_s1 example_s1_no_tasks)

text \<open>
  Claim C4 as stated fails: in the scenario, session \<open>s1\<close> holds no task \<open>t9\<close>, and a
  report for \<open>t9\<close> with status \<^verbatim>\<open>completed\<close> changes the session's \<^verbatim>\<open>completedTasks\<close>
  from 0 to 1 and its \<^verbatim>\<open>lastActivity\<close> from 0 to the time of the report.
\<close>

theorem agent_progress_unknown_task_counterexample:
  "stored_task example_world ''s1'' ''t9'' = None \<and>
   map_option (completedTasks \<circ> session_metrics)
     (dict_get (active_sessions example_world) ''s1'') = Some 0 \<and>
   map_option (completedTasks \<circ> session_metrics)
     (dict_get (active_sessions (agent_progress ''c2'' progress_unknown example_world)) ''s1'') =
     Some 1 \<and>
   map_option lastActivity (dict_get (active_sessions example_world) ''s1'') = Some 0 \<and>
   map_option lastActivity
     (dict_get (active_sessions (agent_progress ''c2'' progress_unknown example_world)) ''s1'') =
     Some 1000"
proof -
  have nt: "dict_get (tasks session_s1) ''t9'' = None"
    by (rule example_s1_no_tasks)
  have s: "dict_get (active_sessions (bump_messages example_world)) ''s1'' = Some session_s1"
    by (simp add: example_s1)
  have eq: "active_sessions (agent_progress ''c2'' progress_unknown example_world) =
              active_sessions (update_progress ''s1'' ''t9'' progress_unknown (bump_messages example_world))"
    using example_s1
    by (simp add: agent_progress_def progress_unknown_def Let_def now_ms_def emit_def dict_has_def)
  have c: "clock example_world (ticks example_world) = 1"
    by (simp add: example_world_def example_clock_def)
  show ?thesis
    using example_s1_unknown_task
    by (simp add: eq update_progress_unknown [OF s nt] example_s1 dict_get_set c)
       (simp add: session_s1_def new_session_def progress_unknown_def)
qed

text \<open>
  Claim C4, as the code has it.  When the report's \<^verbatim>\<open>sessionId\<close> and \<^verbatim>\<open>taskId\<close> identify
  no stored task, \<^verbatim>\<open>agent_progress\<close> still sends exactly one \<^verbatim>\<open>task-progress\<close> event to
  the session's room, with the payload as received and two server timestamps; no task
  record is created or changed and no session is added or removed.  The refresh of
  \<^verbatim>\<open>lastActivity\<close> and the completion counters are under the test
  \<^verbatim>\<open>session_id in active_sessions and task_id\<close>, not under the test that the task is
  stored: if the session does not exist or the \<^verbatim>\<open>taskId\<close> is missing or empty, the
  sessions are untouched; otherwise the session's \<^verbatim>\<open>lastActivity\<close> is set to the time
  of the report and, when the report's status is \<^verbatim>\<open>completed\<close>, its \<^verbatim>\<open>completedTasks\<close>
  grows by one.
\<close>

theorem agent_progress_unknown_task:
  assumes "case progress_taskId pd of
             None \<Rightarrow> True
           | Some tid \<Rightarrow> stored_task w (get_or (progress_sessionId pd) ''default'') tid = None"
  shows "emitted_since w (agent_progress sid pd w) =
           [\<lparr>event = TaskProgress (get_or (progress_sessionId pd) ''default'') pd (environment w)
                      (clock w (ticks (agent_progress sid pd w) - 2) * 1000)
                      (clock w (ticks (agent_progress sid pd w) - 1) * 1000),
             room = Some (get_or (progress_sessionId pd) ''default'')\<rparr>] \<and>
         (\<forall>k tid. stored_task (agent_progress sid pd w) k tid = stored_task w k tid) \<and>
         dict_keys (active_sessions (agent_progress sid pd w)) = dict_keys (active_sessions w) \<and>
         (case dict_get (active_sessions w) (get_or (progress_sessionId pd) ''default'') of
            None \<Rightarrow> active_sessions (agent_progress sid pd w) = active_sessions w
          | Some s \<Rightarrow>
              if truthy (progress_taskId pd) then
                active_sessions (agent_progress sid pd w) =
                  dict_set (get_or (progress_sessionId pd) ''default'')
                    (s\<lparr>lastActivity := clock w (ticks w) * 1000,
                       session_metrics :=
                         (if progress_status pd = Some ''completed'' then
                            (session_metrics s)
                              \<lparr>completedTasks := completedTasks (session_metrics s) + 1\<rparr>
                          else session_metrics s)\<rparr>)
                    (active_sessions w)
              else active_sessions (agent_progress sid pd w) = active_sessions w)"
proof -
  let ?k = "get_or (progress_sessionId pd) ''default''"
  let ?w' = "agent_progress sid pd w"
  show ?thesis
  proof (cases "\<exists>s tid. dict_get (active_sessions w) ?k = Some s \<and> progress_taskId pd = Some tid \<and> tid \<noteq> []")
    case True
    then obtain s tid where s: "dict_get (active_sessions w) ?k = Some s"
      and tid: "progress_taskId pd = Some tid" "tid \<noteq> []" by blast
    have nt: "dict_get (tasks s) tid = None"
      using assms s tid by (simp add: stored_task_def)
    have s': "dict_get (active_sessions (bump_messages w)) ?k = Some s"
      using s by simp
    note up = update_progress_unknown [OF s' nt, of pd]
    have eq: "?w' = emit (TaskProgress ?k pd (environment w) (clock w (Suc (ticks w)) * 1000)
                            (clock w (Suc (Suc (ticks w))) * 1000)) (Some ?k)
                     ((update_progress ?k tid pd (bump_messages w))\<lparr>ticks := Suc (Suc (Suc (ticks w)))\<rparr>)"
      using s tid by (simp add: agent_progress_def Let_def now_ms_def dict_has_def up)
    have ob: "outbox ?w' = outbox w @
           [\<lparr>event = TaskProgress ?k pd (environment w)
                      (clock w (ticks ?w' - 2) * 1000) (clock w (ticks ?w' - 1) * 1000),
             room = Some ?k\<rparr>]"
      by (simp add: eq emit_def up)
    have act: "active_sessions ?w' =
                  dict_set ?k
                    (s\<lparr>lastActivity := clock w (ticks w) * 1000,
                       session_metrics :=
                         (if progress_status pd = Some ''completed'' then
                            (session_metrics s)
                              \<lparr>completedTasks := completedTasks (session_metrics s) + 1\<rparr>
                          else session_metrics s)\<rparr>)
                    (active_sessions w)"
      by (simp add: eq emit_def up)
    have st: "\<forall>k t. stored_task ?w' k t = stored_task w k t"
      using s by (auto simp: stored_task_def act dict_get_set)
    have keys: "dict_keys (active_sessions ?w') = dict_keys (active_sessions w)"
      using s by (simp add: act dict_keys_set_present dict_has_def)
    show ?thesis
      using emitted_since_append [OF ob] st keys act s tid by simp
  next
    case False
    then have skip: "(case progress_taskId pd of
               None \<Rightarrow> bump_messages w
             | Some tid \<Rightarrow>
                 if dict_has ?k (active_sessions (bump_messages w)) \<and> tid \<noteq> [] then
                   update_progress ?k tid pd (bump_messages w)
                 else bump_messages w) = bump_messages w"
      by (auto simp: dict_has_def split: option.splits)
    have eq: "?w' = emit (TaskProgress ?k pd (environment w) (clock w (ticks w) * 1000)
                            (clock w (Suc (ticks w)) * 1000)) (Some ?k)
                     ((bump_messages w)\<lparr>ticks := Suc (Suc (ticks w))\<rparr>)"
      unfolding agent_progress_def Let_def skip by (simp add: now_ms_def)
    have ob: "outbox ?w' = outbox w @
           [\<lparr>event = TaskProgress ?k pd (environment w)
                      (clock w (ticks ?w' - 2) * 1000) (clock w (ticks ?w' - 1) * 1000),
             room = Some ?k\<rparr>]"
      by (simp add: eq emit_def)
    have act: "active_sessions ?w' = active_sessions w"
      by (simp add: eq emit_def)
    have st: "\<forall>k t. stored_task ?w' k t = stored_task w k t"
      by (simp add: stored_task_def act)
    have last: "(case dict_get (active_sessions w) ?k of
            None \<Rightarrow> active_sessions ?w' = active_sessions w
          | Some s \<Rightarrow>
              if truthy (progress_taskId pd) then
                active_sessions ?w' =
                  dict_set ?k
                    (s\<lparr>lastActivity := clock w (ticks w) * 1000,
                       session_metrics :=
                         (if progress_status pd = Some ''completed'' then
                            (session_metrics s)
                              \<lparr>completedTasks := completedTasks (session_metrics s) + 1\<rparr>
                          else session_metrics s)\<rparr>)
                    (active_sessions w)
              else active_sessions ?w' = active_sessions w)"
      using False act by (cases "progress_taskId pd") (auto split: option.splits)
    show ?thesis
      using emitted_since_append [OF ob] st act last by simp
  qed
qed

theorem agent_progress_unknown_task_witness:
  "stored_task example_world ''s1'' ''t9'' = None \<and>
   emitted_since example_world (agent_progress ''c2'' progress_unknown example_world) =
     [\<lparr>event = TaskProgress ''s1'' progress_unknown ''development'' 2000 3000,
       room = Some ''s1''\<rparr>] \<and>
   stored_task (agent_progress ''c2'' progress_unknown example_world) ''s1'' ''t9'' = None \<and>
   dict_keys (active_sessions (agent_progress ''c2'' progress_unknown example_world)) =
     [''s1'', ''s2'', ''default'']"
proof -
  have k: "get_or (progress_sessionId progress_unknown) ''default'' = ''s1''"
    "progress_taskId progress_unknown = Some ''t9''"
    by (simp_all add: progress_unknown_def)
  have h: "case progress_taskId progress_unknown of
             None \<Rightarrow> True
           | Some tid \<Rightarrow>
               stored_task example_world (get_or (progress_sessionId progress_unknown) ''default'') tid
                 = None"
    by (simp add: k example_s1_unknown_task)
  have t: "ticks (agent_progress ''c2'' progress_unknown example_world) = 4"
    using example_s1 example_s1_unknown_task
    by (simp add: agent_progress_ticks k dict_has_def update_progress_ticks stored_task_def)
       (simp add: example_world_def)
  have c: "clock example_world 2 = 2" "clock example_world 3 = 3"
    "environment example_world = ''development''"
    "dict_keys (active_sessions example_world) = [''s1'', ''s2'', ''default'']"
    by (simp_all add: example_world_def example_clock_def dict_keys_def)
  show ?thesis
    using agent_progress_unknown_task [OF h, of "''c2''"] example_s1_unknown_task
    by (simp add: k t c)
qed

section \<open>Collaboration router: a target that is not registered\<close>

lemma find_target_socket_absent:
  "\<not> dict_has target d \<Longrightarrow> find_target_socket target d = None"
  by (induction d) (auto simp: dict_has_def dict_get_def)

lemma store_request_fields [simp]:
  "registered_agents (store_request k rd w) = registered_agents w"
  "outbox (store_request k rd w) = outbox w"
  "stats (store_request k rd w) = stats w"
  "clock (store_request k rd w) = clock w"
  "environment (store_request k rd w) = environment w"
  by (simp_all add: store_request_def now_ms_def Let_def)

lemma store_request_ticks:
  "ticks (store_request k rd w) = (if dict_has k (active_sessions w) then Suc (ticks w) else ticks w)"
  by (simp add: store_request_def now_ms_def Let_def)

lemma store_request_get:
  "dict_get (active_sessions (store_request k rd w)) k' =
     (if k' = k then
        map_option (\<lambda>s. s\<lparr>collaborationRequests :=
                             dict_set (requestId rd)
                               \<lparr>request_of = rd, collaboration_timestamp = clock w (ticks w) * 1000,
                                collaboration_status = ''pending''\<rparr>
                               (collaborationRequests s)\<rparr>)
          (dict_get (active_sessions w) k)
      else dict_get (active_sessions w) k')"
  by (auto simp: store_request_def now_ms_def Let_def update_session_get dict_has_def)

lemma example_no_ghost: "\<not> dict_has ''ghost'' (registered_agents example_world)"
  by (simp add: example_world_def dict_has_def dict_get_def)

text \<open>
  Claim C6.  When \<^verbatim>\<open>targetAgent\<close> is a non-empty identifier that is not a key of
  \<^verbatim>\<open>registered_agents\<close>, \<^verbatim>\<open>collaboration_request\<close> sends exactly one event: a
  \<^verbatim>\<open>collaboration-error\<close> whose message names the target, to the room of the requesting
  connection.  Nothing is sent to any other room, so nothing is broadcast to the session.
\<close>

theorem collaboration_request_missing_target:
  assumes "targetAgent rd = Some target" and "target \<noteq> []"
    and "\<not> dict_has target (registered_agents w)"
  shows "emitted_since w (collaboration_request sid rd w) =
           [\<lparr>event = CollaborationError (requestId rd)
                      (''Target agent '' @ target @ '' not found'')
                      (clock w (ticks (collaboration_request sid rd w) - 1) * 1000),
             room = Some sid\<rparr>] \<and>
         list_all (\<lambda>e. room e = Some sid) (emitted_since w (collaboration_request sid rd w))"
proof -
  let ?k = "get_or (request_sessionId rd) ''default''"
  let ?w2 = "store_request ?k rd (bump_messages w)"
  have sock: "find_target_socket target (registered_agents ?w2) = None"
    using assms(3) by (simp add: find_target_socket_absent)
  have eq: "collaboration_request sid rd w =
      emit (CollaborationError (requestId rd) (''Target agent '' @ target @ '' not found'')
              (clock w (ticks ?w2) * 1000)) (Some sid) (?w2\<lparr>ticks := Suc (ticks ?w2)\<rparr>)"
    using assms(1,2) sock
    by (simp add: collaboration_request_def Let_def now_ms_def)
  have ob: "outbox (collaboration_request sid rd w) = outbox w @
           [\<lparr>event = CollaborationError (requestId rd)
                      (''Target agent '' @ target @ '' not found'')
                      (clock w (ticks (collaboration_request sid rd w) - 1) * 1000),
             room = Some sid\<rparr>]"
    by (simp add: eq emit_def)
  show ?thesis
    by (simp add: emitted_since_append [OF ob])
qed

theorem collaboration_request_missing_target_witness:
  "targetAgent request_ghost = Some ''ghost'' \<and>
   \<not> dict_has ''ghost'' (registered_agents example_world) \<and>
   emitted_since example_world (collaboration_request ''c2'' request_ghost example_world) =
     [\<lparr>event = CollaborationError (Some ''r1'') ''Target agent ghost not found'' 2000,
       room = Some ''c2''\<rparr>]"
proof -
  have h1: "targetAgent request_ghost = Some ''ghost''" by (simp add: request_ghost_def)
  have h2: "''ghost'' \<noteq> []" by simp
  have t: "ticks (collaboration_request ''c2'' request_ghost example_world) = 3"
    using example_s1 example_no_ghost
    by (simp add: collaboration_request_def Let_def now_ms_def emit_def store_request_ticks
          request_ghost_def dict_has_def find_target_socket_absent)
       (simp add: example_world_def)
  have c: "clock example_world 2 = 2" "requestId request_ghost = Some ''r1''"
    by (simp_all add: example_world_def example_clock_def request_ghost_def)
  show ?thesis
    using collaboration_request_missing_target [OF h1 h2 example_no_ghost, of "''c2''"]
      h1 example_no_ghost
    by (simp add: t c)
qed

section \<open>Registry: cleaning up after a connection\<close>

lemma unregister_in_session_fields [simp]:
  "registered_agents (unregister_in_session aid k w) = registered_agents w"
  "stats (unregister_in_session aid k w) = stats w"
  "clock (unregister_in_session aid k w) = clock w"
  "environment (unregister_in_session aid k w) = environment w"
  "dict_keys (active_sessions (unregister_in_session aid k w)) = dict_keys (active_sessions w)"
  by (simp_all add: unregister_in_session_def now_ms_def emit_def Let_def split: option.splits)



lemma fold_unregister_fields [simp]:
  "registered_agents (fold (unregister_in_session aid) ks w) = registered_agents w"
  "stats (fold (unregister_in_session aid) ks w) = stats w"
  "clock (fold (unregister_in_session aid) ks w) = clock w"
  "environment (fold (unregister_in_session aid) ks w) = environment w"
  "dict_keys (active_sessions (fold (unregister_in_session aid) ks w)) = dict_keys (active_sessions w)"
  by (induction ks arbitrary: w; simp)+



lemma remove_agent_fields [simp]:
  "stats (remove_agent aid w) = stats w"
  "clock (remove_agent aid w) = clock w"
  "environment (remove_agent aid w) = environment w"
  "registered_agents (remove_agent aid w) = dict_del aid (registered_agents w)"
  "dict_keys (active_sessions (remove_agent aid w)) = dict_keys (active_sessions w)"
  by (simp_all add: remove_agent_def Let_def)


lemma session_lists_registry [simp]:
  "session_lists (w\<lparr>registered_agents := r\<rparr>) k aid = session_lists w k aid"
  "session_lists (w\<lparr>stats := st\<rparr>) k aid = session_lists w k aid"
  by (simp_all add: session_lists_def)



lemma fold_remove_agent_fields [simp]:
  "stats (fold remove_agent as w) = stats w"
  "clock (fold remove_agent as w) = clock w"
  "environment (fold remove_agent as w) = environment w"
  "dict_keys (active_sessions (fold remove_agent as w)) = dict_keys (active_sessions w)"
  by (induction as arbitrary: w; simp)+




lemma agents_to_remove_stats [simp]:
  "agents_to_remove sid (w\<lparr>stats := st\<rparr>) = agents_to_remove sid w"
  by (simp add: agents_to_remove_def)





section \<open>Registry: joining a session twice\<close>

lemma join_session_existing:
  assumes "session_id \<noteq> []" and "dict_get (active_sessions w) session_id = Some s"
  shows "active_sessions (join_session sid (Some session_id) w) =
           dict_set session_id (s\<lparr>lastActivity := clock w (ticks w) * 1000\<rparr>) (active_sessions w)"
    and "ticks (join_session sid (Some session_id) w) = Suc (ticks w)"
    and "clock (join_session sid (Some session_id) w) = clock w"
  using assms
  by (simp_all add: join_session_def Let_def now_ms_def dict_has_def update_session_def emit_def
        dict_get_set)

lemma join_session_new:
  assumes "session_id \<noteq> []" and "\<not> dict_has session_id (active_sessions w)"
  shows "active_sessions (join_session sid (Some session_id) w) =
           active_sessions w @
             [(session_id, new_session session_id (clock w (ticks w) * 1000)
                             (clock w (ticks w + 2) * 1000))]"
    and "ticks (join_session sid (Some session_id) w) = ticks w + 3"
    and "clock (join_session sid (Some session_id) w) = clock w"
  using assms
  by (simp_all add: join_session_def Let_def now_ms_def update_session_def emit_def
        dict_get_set dict_set_set)
    (simp add: dict_set_absent new_session_def)

lemma example_no_s9: "\<not> dict_has ''s9'' (active_sessions example_world)"
  by (simp add: example_world_def dict_has_def dict_get_def)

text \<open>
  Claim C8.  Two calls of \<^verbatim>\<open>join_session\<close> with the same non-empty session id, from the
  same connection: the first adds the session at the end of the table if it was not there
  and adds nothing otherwise; the second adds nothing.  After both calls the session
  exists, its \<^verbatim>\<open>createdAt\<close> after the second call is the one after the first, and after
  each call its \<^verbatim>\<open>lastActivity\<close> is the last clock reading made during that call.
\<close>

theorem join_session_twice:
  assumes "session_id \<noteq> []"
  shows "(let w1 = join_session sid (Some session_id) w;
              w2 = join_session sid (Some session_id) w1
          in dict_keys (active_sessions w1) =
               (if dict_has session_id (active_sessions w) then dict_keys (active_sessions w)
                else dict_keys (active_sessions w) @ [session_id]) \<and>
             dict_keys (active_sessions w2) = dict_keys (active_sessions w1) \<and>
             (\<exists>s1 s2. dict_get (active_sessions w1) session_id = Some s1 \<and>
                      dict_get (active_sessions w2) session_id = Some s2 \<and>
                      createdAt s2 = createdAt s1 \<and>
                      ticks w < ticks w1 \<and> lastActivity s1 = clock w (ticks w1 - 1) * 1000 \<and>
                      ticks w1 < ticks w2 \<and> lastActivity s2 = clock w (ticks w2 - 1) * 1000))"
proof -
  let ?w1 = "join_session sid (Some session_id) w"
  let ?w2 = "join_session sid (Some session_id) ?w1"
  have first: "dict_keys (active_sessions ?w1) =
               (if dict_has session_id (active_sessions w) then dict_keys (active_sessions w)
                else dict_keys (active_sessions w) @ [session_id])"
    using assms join_session_existing(1) [of session_id w _ sid]
      join_session_new(1) [of session_id w sid]
    by (auto simp: dict_keys_set_present dict_has_def) (simp add: dict_keys_def)
  obtain s1 where s1:
    "dict_get (active_sessions ?w1) session_id = Some s1"
    "ticks w < ticks ?w1" "lastActivity s1 = clock w (ticks ?w1 - 1) * 1000"
    "clock ?w1 = clock w"
  proof (cases "dict_has session_id (active_sessions w)")
    case True
    then obtain s where s: "dict_get (active_sessions w) session_id = Some s"
      by (auto simp: dict_has_def)
    show ?thesis
      using that [of "s\<lparr>lastActivity := clock w (ticks w) * 1000\<rparr>"]
        join_session_existing [OF assms s, of sid]
      by (simp add: dict_get_set)
  next
    case False
    show ?thesis
      using that [of "new_session session_id (clock w (ticks w) * 1000)
                             (clock w (ticks w + 2) * 1000)"]
        join_session_new [OF assms False, of sid] False
      by (simp add: dict_get_append_new new_session_def)
  qed
  note second = join_session_existing [OF assms s1(1), of sid]
  have keys2: "dict_keys (active_sessions ?w2) = dict_keys (active_sessions ?w1)"
    using s1(1) by (simp add: second(1) dict_keys_set_present dict_has_def)
  have s2: "dict_get (active_sessions ?w2) session_id =
              Some (s1\<lparr>lastActivity := clock ?w1 (ticks ?w1) * 1000\<rparr>)"
    by (simp add: second(1) dict_get_set)
  show ?thesis
    unfolding Let_def
    using first keys2 s1 s2 second(2) by simp
qed

theorem join_session_twice_witness:
  "''s9'' \<noteq> [] \<and>
   dict_keys (active_sessions (join_session ''c1'' (Some ''s9'') example_world)) =
     [''s1'', ''s2'', ''default'', ''s9''] \<and>
   dict_keys (active_sessions
      (join_session ''c1'' (Some ''s9'') (join_session ''c1'' (Some ''s9'') example_world))) =
     [''s1'', ''s2'', ''default'', ''s9''] \<and>
   map_option createdAt
     (dict_get (active_sessions (join_session ''c1'' (Some ''s9'') example_world)) ''s9'') =
     Some 1000 \<and>
   map_option createdAt
     (dict_get (active_sessions
        (join_session ''c1'' (Some ''s9'') (join_session ''c1'' (Some ''s9'') example_world)))
        ''s9'') = Some 1000 \<and>
   map_option lastActivity
     (dict_get (active_sessions (join_session ''c1'' (Some ''s9'') example_world)) ''s9'') =
     Some 3000 \<and>
   map_option lastActivity
     (dict_get (active_sessions
        (join_session ''c1'' (Some ''s9'') (join_session ''c1'' (Some ''s9'') example_world)))
        ''s9'') = Some 4000"
proof -
  have h: "''s9'' \<noteq> []" by simp
  let ?w1 = "join_session ''c1'' (Some ''s9'') example_world"
  let ?w2 = "join_session ''c1'' (Some ''s9'') ?w1"
  note new = join_session_new [OF h example_no_s9, of "''c1''"]
  have s1: "dict_get (active_sessions ?w1) ''s9'' =
              Some (new_session ''s9'' (clock example_world (ticks example_world) * 1000)
                      (clock example_world (ticks example_world + 2) * 1000))"
    using example_no_s9 by (simp add: new(1) dict_get_append_new)
  note old = join_session_existing [OF h s1, of "''c1''"]
  have t: "ticks ?w1 = 4" "ticks ?w2 = 5"
    by (simp_all add: old(2) new(2)) (simp_all add: example_world_def)
  have c: "clock example_world 3 = 3" "clock example_world 4 = 4"
    "clock example_world (ticks example_world) = 1"
    "dict_keys (active_sessions example_world) = [''s1'', ''s2'', ''default'']"
    by (simp_all add: example_world_def example_clock_def dict_keys_def)
  have cr: "createdAt (new_session ''s9'' 1000 x) = 1000" for x
    by (simp add: new_session_def)
  show ?thesis
    using join_session_twice [OF h, of "''c1''" example_world] example_no_s9
    by (auto simp: Let_def t c s1 cr)
qed

section \<open>Metrics aggregator: the derived rates\<close>

lemma connect_stats:
  "stats (snd (connect sid auth w)) = (stats w)\<lparr>connections := connections (stats w) + 1\<rparr>"
  by (simp add: connect_def Let_def now_ms_def emit_def)

lemma disconnect_stats:
  "stats (disconnect sid w) = (stats w)\<lparr>connections := max 0 (connections (stats w) - 1)\<rparr>"
  by (simp add: disconnect_def Let_def)

lemma join_session_stats: "stats (join_session sid d w) = stats w"
  by (simp add: join_session_def Let_def now_ms_def emit_def split: option.splits)

lemma announce_agent_stats [simp]: "stats (announce_agent sid aid a r w) = stats w"
  by (simp add: announce_agent_def Let_def now_ms_def emit_def)

lemma fold_announce_agent_stats [simp]: "stats (fold (announce_agent sid aid a) rs w) = stats w"
  by (induction rs arbitrary: w) simp_all

lemma register_agent_stats: "stats (register_agent sid info rooms w) = stats w"
  by (simp add: register_agent_def Let_def now_ms_def emit_def split: option.splits)

lemma assign_parallel_fields [simp]:
  "stats (assign_parallel k tid td as w) = stats w"
  "active_sessions (assign_parallel k tid td as w) = active_sessions w"
  by (induction as arbitrary: w; simp add: now_ms_def emit_def)+

lemma start_task_stats:
  "errors (stats w) \<le> errors (stats (start_task sid td w)) \<and>
   errors (stats (start_task sid td w)) - errors (stats w) \<le>
     messages_processed (stats (start_task sid td w)) - messages_processed (stats w)"
  by (simp add: start_task_def Let_def now_ms_def emit_def split: option.splits list.splits)

lemma update_progress_stats [simp]:
  "errors (stats (update_progress k tid pd w)) = errors (stats w)"
  "messages_processed (stats (update_progress k tid pd w)) = messages_processed (stats w)"
  by (simp_all add: update_progress_def Let_def now_ms_def split: option.splits)

lemma agent_progress_stats:
  "errors (stats (agent_progress sid pd w)) = errors (stats w)"
  "messages_processed (stats (agent_progress sid pd w)) = messages_processed (stats w) + 1"
  by (simp_all add: agent_progress_def Let_def now_ms_def emit_def split: option.splits)

lemma collaboration_request_stats:
  "errors (stats (collaboration_request sid rd w)) = errors (stats w)"
  "messages_processed (stats (collaboration_request sid rd w)) = messages_processed (stats w) + 1"
  by (simp_all add: collaboration_request_def Let_def now_ms_def emit_def)

lemma broadcast_message_stats:
  "errors (stats (snd (broadcast_message m w))) = errors (stats w)"
  "messages_processed (stats (snd (broadcast_message m w))) = messages_processed (stats w) + 1"
  by (simp_all add: broadcast_message_def Let_def now_ms_def emit_def)

lemma simulate_agent_activity_stats: "stats (simulate_agent_activity r w) = stats w"
  by (simp add: simulate_agent_activity_def Let_def now_ms_def now_s_def emit_def)

lemma simulate_progress_stats: "stats (simulate_progress k aid tid nm n w) = stats w"
  by (simp add: simulate_progress_def Let_def now_ms_def emit_def)

lemma simulate_completion_stats:
  "errors (stats (simulate_completion k aid tid ty w)) = errors (stats w)"
  "messages_processed (stats (simulate_completion k aid tid ty w)) = messages_processed (stats w)"
  by (simp_all add: simulate_completion_def Let_def now_ms_def emit_def split: option.splits)

lemma health_check_stats: "stats (snd (health_check w)) = stats w"
  by (simp add: health_check_def Let_def now_ms_def py_truediv_def)

lemma reachable_errors_bounded:
  "reachable w \<Longrightarrow>
   0 \<le> errors (stats w) \<and> errors (stats w) \<le> messages_processed (stats w)"
proof (induction rule: reachable.induct)
  case (loaded env clk)
  show ?case by (simp add: initial_world_def)
next
  case (task_started w sid task_definition)
  then show ?case using start_task_stats [of w sid task_definition] by linarith
qed (simp_all add: connect_stats disconnect_stats join_session_stats register_agent_stats
      agent_progress_stats collaboration_request_stats broadcast_message_stats
      simulate_agent_activity_stats simulate_progress_stats simulate_completion_stats
      health_check_stats now_s_def now_ms_def)

lemma health_check_result:
  "fst (health_check w) =
     Inr \<lparr>uptime = clock w (ticks w) * 1000 - start_time (stats w),
          performance_of =
            \<lparr>performance_active_sessions = int (length (active_sessions w)),
             performance_registered_agents = int (length (registered_agents w)),
             messages_per_second =
               real_of_int (messages_processed (stats w)) /
                 max ((clock w (ticks w) * 1000 - start_time (stats w)) / 1000) 1,
             error_rate =
               real_of_int (errors (stats w)) /
                 real_of_int (max (messages_processed (stats w)) 1) * 100\<rparr>,
          health_timestamp = clock w (Suc (ticks w)) * 1000\<rparr>"
proof -
  have a: "max ((clock w (ticks w) * 1000 - start_time (stats w)) / 1000) 1 \<noteq> 0"
    by (simp add: max_def)
  have b: "real_of_int (max (messages_processed (stats w)) 1) \<noteq> 0"
    by (simp add: max_def)
  show ?thesis
    using a b by (simp add: health_check_def Let_def now_ms_def py_truediv_def)
qed

text \<open>
  Claim C9.  In every reachable state \<^verbatim>\<open>health_check\<close> returns a report, never a
  \<^verbatim>\<open>ZeroDivisionError\<close>: both divisors are at least 1.  Its messages-per-second is the
  number of messages processed divided by \<open>max (uptime / 1000) 1\<close> (the uptime is in
  milliseconds) and its error rate is the number of errors divided by
  \<open>max messages_processed 1\<close>, times 100.  With no message processed and uptime 0 the
  error rate is 0, because the error counter never exceeds the message counter.
\<close>

theorem health_check_never_divides_by_zero:
  assumes "reachable w"
  shows "\<exists>h. fst (health_check w) = Inr h \<and>
           uptime h = clock w (ticks w) * 1000 - start_time (stats w) \<and>
           messages_per_second (performance_of h) =
             real_of_int (messages_processed (stats w)) / max (uptime h / 1000) 1 \<and>
           error_rate (performance_of h) =
             real_of_int (errors (stats w)) /
               real_of_int (max (messages_processed (stats w)) 1) * 100 \<and>
           max (uptime h / 1000) 1 \<noteq> 0 \<and>
           max (messages_processed (stats w)) 1 \<noteq> 0 \<and>
           (messages_processed (stats w) = 0 \<and> uptime h = 0 \<longrightarrow>
              error_rate (performance_of h) = 0)"
proof -
  have z: "messages_processed (stats w) = 0 \<Longrightarrow> errors (stats w) = 0"
    using reachable_errors_bounded [OF assms] by linarith
  show ?thesis
    using z by (simp add: health_check_result max_def)
qed

theorem health_check_never_divides_by_zero_witness:
  "reachable (initial_world ''development'' (\<lambda>n. 5)) \<and>
   messages_processed (stats (initial_world ''development'' (\<lambda>n. 5))) = 0 \<and>
   (\<exists>h. fst (health_check (initial_world ''development'' (\<lambda>n. 5))) = Inr h \<and>
        uptime h = 0 \<and> messages_per_second (performance_of h) = 0 \<and>
        error_rate (performance_of h) = 0)"
proof -
  have r: "reachable (initial_world ''development'' (\<lambda>n. 5))"
    by (rule reachable.loaded)
  have m: "messages_processed (stats (initial_world ''development'' (\<lambda>n. 5))) = 0"
    "clock (initial_world ''development'' (\<lambda>n. 5)) n * 1000 -
       start_time (stats (initial_world ''development'' (\<lambda>n. 5))) = 0" for n
    by (simp_all add: initial_world_def)
  show ?thesis
    using health_check_never_divides_by_zero [OF r] r m by auto
qed

section \<open>A payload without a session id\<close>

lemma assign_parallel_outbox:
  "\<exists>es. outbox (assign_parallel k tid td as w) = outbox w @ es \<and> length es = length as \<and>
        list_all (\<lambda>e. room e = Some k \<and> event_name (event e) = ''task-assigned'') es"
proof (induction as arbitrary: w)
  case Nil
  show ?case by simp
next
  case (Cons a as)
  let ?w1 = "emit (TaskAssigned tid (agent_id a) ''parallel'' td (clock w (ticks w) * 1000))
               (Some k) (w\<lparr>ticks := Suc (ticks w)\<rparr>)"
  obtain es where es: "outbox (assign_parallel k tid td as ?w1) = outbox ?w1 @ es"
    "length es = length as"
    "list_all (\<lambda>e. room e = Some k \<and> event_name (event e) = ''task-assigned'') es"
    using Cons.IH [of ?w1] by blast
  have "outbox (assign_parallel k tid td (a # as) w) =
          outbox w @ (\<lparr>event = TaskAssigned tid (agent_id a) ''parallel'' td
                                 (clock w (ticks w) * 1000), room = Some k\<rparr> # es)"
    using es(1) by (simp add: now_ms_def) (simp add: emit_def)
  then show ?case using es(2,3) by auto
qed

lemma start_task_sessions:
  assumes "task_id td = Some tid" and "tid \<noteq> []"
  shows "active_sessions (start_task sid td w) =
           active_sessions (record_task (get_or (task_sessionId td) ''default'') tid td
                              (bump_messages w))"
  using assms
  by (simp add: start_task_def Let_def now_ms_def emit_def split: list.splits)

lemma start_task_outbox:
  assumes "task_id td = Some tid" and "tid \<noteq> []"
  shows "\<exists>es. outbox (start_task sid td w) = outbox w @ es \<and> es \<noteq> [] \<and>
           list_all (\<lambda>e. room e = Some (get_or (task_sessionId td) ''default'') \<and>
                         (event_name (event e) = ''task-error'' \<or>
                          event_name (event e) = ''task-assigned'')) es"
proof -
  let ?k = "get_or (task_sessionId td) ''default''"
  let ?w2 = "record_task ?k tid td (bump_messages w)"
  show ?thesis
  proof (cases "find_suitable_agents td ?k ?w2")
    case Nil
    then have "outbox (start_task sid td w) = outbox w @
        [\<lparr>event = TaskError tid ''No suitable agents found for task'' (requirements_of td)
                    (available_agents ?k ?w2) (clock w (ticks ?w2) * 1000),
          room = Some ?k\<rparr>]"
      using assms by (simp add: start_task_def Let_def now_ms_def emit_def)
    then show ?thesis by simp
  next
    case (Cons a rest)
    show ?thesis
    proof (cases "get_or (collaborationMode td) ''sequential'' = ''parallel''")
      case True
      obtain es where es: "outbox (assign_parallel ?k tid td (a # rest) ?w2) = outbox ?w2 @ es"
        "length es = length (a # rest)"
        "list_all (\<lambda>e. room e = Some ?k \<and> event_name (event e) = ''task-assigned'') es"
        using assign_parallel_outbox [of ?k tid td "a # rest" ?w2] by blast
      have "outbox (start_task sid td w) = outbox w @ es"
        using assms Cons True es(1) by (simp add: start_task_def Let_def)
      moreover have "es \<noteq> []" using es(2) by auto
      moreover have "list_all (\<lambda>e. room e = Some ?k \<and>
                         (event_name (event e) = ''task-error'' \<or>
                          event_name (event e) = ''task-assigned'')) es"
        using es(3) by (auto simp: list_all_iff)
      ultimately show ?thesis by blast
    next
      case False
      then have "outbox (start_task sid td w) = outbox w @
          [\<lparr>event = TaskAssigned tid (agent_id a) ''sequential'' td (clock w (ticks ?w2) * 1000),
            room = Some ?k\<rparr>]"
        using assms Cons by (simp add: start_task_def Let_def now_ms_def emit_def)
      then show ?thesis by simp
    qed
  qed
qed

lemma collaboration_request_sessions:
  "active_sessions (collaboration_request sid rd w) =
     active_sessions (store_request (get_or (request_sessionId rd) ''default'') rd (bump_messages w))"
  by (simp add: collaboration_request_def Let_def now_ms_def emit_def)

lemma collaboration_request_outbox:
  "\<exists>e. outbox (collaboration_request sid rd w) = outbox w @ [e] \<and>
       (event_name (event e) = ''collaboration-request'' \<or>
        event_name (event e) = ''collaboration-error'') \<and>
       (\<not> truthy (targetAgent rd) \<longrightarrow>
          e = \<lparr>event = CollaborationRequest rd
                         (clock w (ticks (collaboration_request sid rd w) - 1) * 1000),
               room = Some (get_or (request_sessionId rd) ''default'')\<rparr>)"
  by (simp add: collaboration_request_def Let_def now_ms_def emit_def)

lemma agent_progress_outbox:
  "outbox (agent_progress sid pd w) = outbox w @
     [\<lparr>event = TaskProgress (get_or (progress_sessionId pd) ''default'') pd (environment w)
                (clock w (ticks (agent_progress sid pd w) - 2) * 1000)
                (clock w (ticks (agent_progress sid pd w) - 1) * 1000),
       room = Some (get_or (progress_sessionId pd) ''default'')\<rparr>]"
  by (simp add: agent_progress_def Let_def now_ms_def emit_def split: option.splits)

lemma update_progress_other:
  "k' \<noteq> k \<Longrightarrow>
   dict_get (active_sessions (update_progress k tid pd w)) k' = dict_get (active_sessions w) k'"
  by (simp add: update_progress_def Let_def now_ms_def update_session_get split: option.splits)

lemma agent_progress_other:
  "k' \<noteq> get_or (progress_sessionId pd) ''default'' \<Longrightarrow>
   dict_get (active_sessions (agent_progress sid pd w)) k' = dict_get (active_sessions w) k'"
  by (simp add: agent_progress_def Let_def now_ms_def emit_def update_progress_other
        split: option.splits)

lemma collaboration_request_ticks:
  "ticks (collaboration_request sid rd w) =
     Suc (ticks (store_request (get_or (request_sessionId rd) ''default'') rd (bump_messages w)))"
  by (simp add: collaboration_request_def Let_def now_ms_def emit_def)

lemma update_progress_get:
  assumes "dict_get (active_sessions w) k = Some s"
  shows "dict_get (active_sessions (update_progress k tid pd w)) k =
           Some (s\<lparr>tasks :=
                     (case dict_get (tasks s) tid of
                        None \<Rightarrow> tasks s
                      | Some tk \<Rightarrow>
                          dict_set tid
                            (tk\<lparr>lastProgress := Some pd,
                                lastUpdate := Some (clock w (ticks w) * 1000)\<rparr>)
                            (tasks s)),
                   lastActivity :=
                     (case dict_get (tasks s) tid of
                        None \<Rightarrow> clock w (ticks w) * 1000
                      | Some tk \<Rightarrow> clock w (Suc (ticks w)) * 1000),
                   session_metrics :=
                     (if progress_status pd = Some ''completed'' then
                        (session_metrics s)\<lparr>completedTasks := completedTasks (session_metrics s) + 1\<rparr>
                      else session_metrics s)\<rparr>)"
  using assms
  by (simp add: update_progress_def Let_def now_ms_def update_session_get dict_get_set
        split: option.splits)

lemma agent_progress_sessions:
  "active_sessions (agent_progress sid pd w) =
     (case progress_taskId pd of
        None \<Rightarrow> active_sessions w
      | Some tid \<Rightarrow>
          if dict_has (get_or (progress_sessionId pd) ''default'') (active_sessions w) \<and> tid \<noteq> []
          then active_sessions
                 (update_progress (get_or (progress_sessionId pd) ''default'') tid pd
                    (bump_messages w))
          else active_sessions w)"
  by (simp add: agent_progress_def Let_def now_ms_def emit_def split: option.splits)

lemma example_default:
  "dict_get (active_sessions example_world) ''default'' = Some session_default"
  by (simp add: example_world_def dict_get_def)

lemma example_default_t0: "dict_get (tasks session_default) ''t0'' = Some task_t0"
  by (simp add: session_default_def dict_get_def)

text \<open>
  Claim C10.  A payload of \<^verbatim>\<open>start_task\<close>, \<^verbatim>\<open>agent_progress\<close> or
  \<^verbatim>\<open>collaboration_request\<close> without a \<^verbatim>\<open>sessionId\<close> is handled as if it named the
  session \<open>default\<close>, and no \<^verbatim>\<open>error\<close> event answers it; in each case no session other
  than \<open>default\<close> changes, and what becomes of session \<open>default\<close>, if it exists, is stated
  in full.  For \<^verbatim>\<open>start_task\<close> (with a task id, which that handler does require): every
  event goes to room \<open>default\<close>, and in session \<open>default\<close> the task is recorded as
  \<^verbatim>\<open>started\<close>, \<^verbatim>\<open>totalTasks\<close> grows by one and \<^verbatim>\<open>lastActivity\<close> is refreshed.  For
  \<^verbatim>\<open>agent_progress\<close>: the one event sent is the \<^verbatim>\<open>task-progress\<close> for session
  \<open>default\<close>, to room \<open>default\<close>; with a non-empty \<^verbatim>\<open>taskId\<close>, session \<open>default\<close> has its
  \<^verbatim>\<open>lastActivity\<close> refreshed, the task, if it holds it, gets the report as
  \<^verbatim>\<open>lastProgress\<close> and the time as \<^verbatim>\<open>lastUpdate\<close>, and \<^verbatim>\<open>completedTasks\<close> grows by one
  when the status is \<^verbatim>\<open>completed\<close>; without one the session is left as it is.  For
  \<^verbatim>\<open>collaboration_request\<close>: the request is stored as \<^verbatim>\<open>pending\<close> in session
  \<open>default\<close>, and a request without a target is broadcast to room \<open>default\<close>.
\<close>

theorem missing_session_id_defaults:
  "(task_sessionId td = None \<and> task_id td = Some tid \<and> tid \<noteq> [] \<longrightarrow>
      emitted_since w (start_task sid td w) \<noteq> [] \<and>
      list_all (\<lambda>e. room e = Some ''default'' \<and> event_name (event e) \<noteq> ''error'')
        (emitted_since w (start_task sid td w)) \<and>
      (\<forall>k. k \<noteq> ''default'' \<longrightarrow>
         dict_get (active_sessions (start_task sid td w)) k = dict_get (active_sessions w) k) \<and>
      (dict_has ''default'' (active_sessions w) \<longrightarrow>
         map_option definition_of (stored_task (start_task sid td w) ''default'' tid) = Some td) \<and>
      (\<forall>s. dict_get (active_sessions w) ''default'' = Some s \<longrightarrow>
         dict_get (active_sessions (start_task sid td w)) ''default'' =
           Some (s\<lparr>tasks :=
                     dict_set tid
                       \<lparr>definition_of = td, startTime = clock w (ticks w) * 1000,
                        task_status = ''started'', task_environment = environment w,
                        lastProgress = None, lastUpdate = None\<rparr>
                       (tasks s),
                   session_metrics :=
                     (session_metrics s)\<lparr>totalTasks := totalTasks (session_metrics s) + 1\<rparr>,
                   lastActivity := clock w (Suc (ticks w)) * 1000\<rparr>))) \<and>
   (progress_sessionId pd = None \<longrightarrow>
      emitted_since w (agent_progress sid pd w) =
        [\<lparr>event = TaskProgress ''default'' pd (environment w)
                   (clock w (ticks (agent_progress sid pd w) - 2) * 1000)
                   (clock w (ticks (agent_progress sid pd w) - 1) * 1000),
          room = Some ''default''\<rparr>] \<and>
      (\<forall>k. k \<noteq> ''default'' \<longrightarrow>
         dict_get (active_sessions (agent_progress sid pd w)) k = dict_get (active_sessions w) k) \<and>
      (\<forall>s. dict_get (active_sessions w) ''default'' = Some s \<longrightarrow>
         dict_get (active_sessions (agent_progress sid pd w)) ''default'' =
           Some (case progress_taskId pd of
                   None \<Rightarrow> s
                 | Some ptid \<Rightarrow>
                     if ptid = [] then s
                     else
                       s\<lparr>tasks :=
                           (case dict_get (tasks s) ptid of
                              None \<Rightarrow> tasks s
                            | Some tk \<Rightarrow>
                                dict_set ptid
                                  (tk\<lparr>lastProgress := Some pd,
                                      lastUpdate := Some (clock w (ticks w) * 1000)\<rparr>)
                                  (tasks s)),
                         lastActivity :=
                           (case dict_get (tasks s) ptid of
                              None \<Rightarrow> clock w (ticks w) * 1000
                            | Some tk \<Rightarrow> clock w (Suc (ticks w)) * 1000),
                         session_metrics :=
                           (if progress_status pd = Some ''completed'' then
                              (session_metrics s)
                                \<lparr>completedTasks := completedTasks (session_metrics s) + 1\<rparr>
                            else session_metrics s)\<rparr>))) \<and>
   (request_sessionId rd = None \<longrightarrow>
      list_all (\<lambda>e. event_name (event e) \<noteq> ''error'')
        (emitted_since w (collaboration_request sid rd w)) \<and>
      (\<not> truthy (targetAgent rd) \<longrightarrow>
         emitted_since w (collaboration_request sid rd w) =
           [\<lparr>event = CollaborationRequest rd
                      (clock w (ticks (collaboration_request sid rd w) - 1) * 1000),
             room = Some ''default''\<rparr>]) \<and>
      (\<forall>k. k \<noteq> ''default'' \<longrightarrow>
         dict_get (active_sessions (collaboration_request sid rd w)) k =
           dict_get (active_sessions w) k) \<and>
      (\<forall>s. dict_get (active_sessions w) ''default'' = Some s \<longrightarrow>
         map_option (\<lambda>s'. map_option request_of (dict_get (collaborationRequests s') (requestId rd)))
           (dict_get (active_sessions (collaboration_request sid rd w)) ''default'') =
           Some (Some rd)) \<and>
      (\<forall>s. dict_get (active_sessions w) ''default'' = Some s \<longrightarrow>
         dict_get (active_sessions (collaboration_request sid rd w)) ''default'' =
           Some (s\<lparr>collaborationRequests :=
                     dict_set (requestId rd)
                       \<lparr>request_of = rd, collaboration_timestamp = clock w (ticks w) * 1000,
                        collaboration_status = ''pending''\<rparr>
                       (collaborationRequests s)\<rparr>)))"
proof (intro conjI impI)
  assume a: "task_sessionId td = None \<and> task_id td = Some tid \<and> tid \<noteq> []"
  then have k: "get_or (task_sessionId td) ''default'' = ''default''" by simp
  obtain es where es: "outbox (start_task sid td w) = outbox w @ es" "es \<noteq> []"
    "list_all (\<lambda>e. room e = Some ''default'' \<and>
                  (event_name (event e) = ''task-error'' \<or>
                   event_name (event e) = ''task-assigned'')) es"
    using start_task_outbox [of td tid sid w] a k by auto
  have em: "emitted_since w (start_task sid td w) = es"
    by (rule emitted_since_append [OF es(1)])
  show "emitted_since w (start_task sid td w) \<noteq> []"
    using es(2) by (simp add: em)
  show "list_all (\<lambda>e. room e = Some ''default'' \<and> event_name (event e) \<noteq> ''error'')
          (emitted_since w (start_task sid td w))"
    using es(3) by (auto simp: em list_all_iff)
  show "\<forall>k. k \<noteq> ''default'' \<longrightarrow>
         dict_get (active_sessions (start_task sid td w)) k = dict_get (active_sessions w) k"
    using a by (simp add: start_task_sessions [of td tid] k record_task_get)
  show "map_option definition_of (stored_task (start_task sid td w) ''default'' tid) = Some td"
    if "dict_has ''default'' (active_sessions w)"
    using a that
    by (auto simp: start_task_sessions [of td tid] k record_task_get stored_task_def dict_has_def
          dict_get_set)
  show "\<forall>s. dict_get (active_sessions w) ''default'' = Some s \<longrightarrow>
         dict_get (active_sessions (start_task sid td w)) ''default'' =
           Some (s\<lparr>tasks :=
                     dict_set tid
                       \<lparr>definition_of = td, startTime = clock w (ticks w) * 1000,
                        task_status = ''started'', task_environment = environment w,
                        lastProgress = None, lastUpdate = None\<rparr>
                       (tasks s),
                   session_metrics :=
                     (session_metrics s)\<lparr>totalTasks := totalTasks (session_metrics s) + 1\<rparr>,
                   lastActivity := clock w (Suc (ticks w)) * 1000\<rparr>)"
    using a by (simp add: start_task_sessions [of td tid] k record_task_get)
next
  assume a: "progress_sessionId pd = None"
  then have k: "get_or (progress_sessionId pd) ''default'' = ''default''" by simp
  show "emitted_since w (agent_progress sid pd w) =
        [\<lparr>event = TaskProgress ''default'' pd (environment w)
                   (clock w (ticks (agent_progress sid pd w) - 2) * 1000)
                   (clock w (ticks (agent_progress sid pd w) - 1) * 1000),
          room = Some ''default''\<rparr>]"
    using emitted_since_append [OF agent_progress_outbox [of sid pd w]] by (simp add: k)
  show "\<forall>k. k \<noteq> ''default'' \<longrightarrow>
         dict_get (active_sessions (agent_progress sid pd w)) k = dict_get (active_sessions w) k"
    using agent_progress_other [of _ pd sid w] by (simp add: k)
  show "\<forall>s. dict_get (active_sessions w) ''default'' = Some s \<longrightarrow>
         dict_get (active_sessions (agent_progress sid pd w)) ''default'' =
           Some (case progress_taskId pd of
                   None \<Rightarrow> s
                 | Some ptid \<Rightarrow>
                     if ptid = [] then s
                     else
                       s\<lparr>tasks :=
                           (case dict_get (tasks s) ptid of
                              None \<Rightarrow> tasks s
                            | Some tk \<Rightarrow>
                                dict_set ptid
                                  (tk\<lparr>lastProgress := Some pd,
                                      lastUpdate := Some (clock w (ticks w) * 1000)\<rparr>)
                                  (tasks s)),
                         lastActivity :=
                           (case dict_get (tasks s) ptid of
                              None \<Rightarrow> clock w (ticks w) * 1000
                            | Some tk \<Rightarrow> clock w (Suc (ticks w)) * 1000),
                         session_metrics :=
                           (if progress_status pd = Some ''completed'' then
                              (session_metrics s)
                                \<lparr>completedTasks := completedTasks (session_metrics s) + 1\<rparr>
                            else session_metrics s)\<rparr>)"
  proof (intro allI impI)
    fix s
    assume s: "dict_get (active_sessions w) ''default'' = Some s"
    then have s': "dict_get (active_sessions (bump_messages w)) ''default'' = Some s"
      by simp
    show "dict_get (active_sessions (agent_progress sid pd w)) ''default'' =
           Some (case progress_taskId pd of
                   None \<Rightarrow> s
                 | Some ptid \<Rightarrow>
                     if ptid = [] then s
                     else
                       s\<lparr>tasks :=
                           (case dict_get (tasks s) ptid of
                              None \<Rightarrow> tasks s
                            | Some tk \<Rightarrow>
                                dict_set ptid
                                  (tk\<lparr>lastProgress := Some pd,
                                      lastUpdate := Some (clock w (ticks w) * 1000)\<rparr>)
                                  (tasks s)),
                         lastActivity :=
                           (case dict_get (tasks s) ptid of
                              None \<Rightarrow> clock w (ticks w) * 1000
                            | Some tk \<Rightarrow> clock w (Suc (ticks w)) * 1000),
                         session_metrics :=
                           (if progress_status pd = Some ''completed'' then
                              (session_metrics s)
                                \<lparr>completedTasks := completedTasks (session_metrics s) + 1\<rparr>
                            else session_metrics s)\<rparr>)"
    proof (cases "progress_taskId pd")
      case None
      then show ?thesis using s by (simp add: agent_progress_sessions)
    next
      case (Some ptid)
      show ?thesis
      proof (cases "ptid = []")
        case True
        then show ?thesis using s Some by (simp add: agent_progress_sessions)
      next
        case False
        then show ?thesis
          using s Some update_progress_get [OF s', of ptid pd, unfolded bump_messages_fields]
          by (simp add: agent_progress_sessions k dict_has_def)
      qed
    qed
  qed
next
  assume a: "request_sessionId rd = None"
  then have k: "get_or (request_sessionId rd) ''default'' = ''default''" by simp
  obtain e where e: "outbox (collaboration_request sid rd w) = outbox w @ [e]"
    "event_name (event e) = ''collaboration-request'' \<or>
     event_name (event e) = ''collaboration-error''"
    "\<not> truthy (targetAgent rd) \<Longrightarrow>
       e = \<lparr>event = CollaborationRequest rd
                      (clock w (ticks (collaboration_request sid rd w) - 1) * 1000),
            room = Some ''default''\<rparr>"
    using collaboration_request_outbox [of sid rd w] by (auto simp: k)
  have em: "emitted_since w (collaboration_request sid rd w) = [e]"
    by (rule emitted_since_append [OF e(1)])
  show "list_all (\<lambda>e. event_name (event e) \<noteq> ''error'')
        (emitted_since w (collaboration_request sid rd w))"
    using e(2) by (auto simp: em)
  show "emitted_since w (collaboration_request sid rd w) =
           [\<lparr>event = CollaborationRequest rd
                      (clock w (ticks (collaboration_request sid rd w) - 1) * 1000),
             room = Some ''default''\<rparr>]"
    if "\<not> truthy (targetAgent rd)"
    using e(3) [OF that] by (simp add: em)
  show "\<forall>k. k \<noteq> ''default'' \<longrightarrow>
         dict_get (active_sessions (collaboration_request sid rd w)) k =
           dict_get (active_sessions w) k"
    by (simp add: collaboration_request_sessions k store_request_get)
  show "\<forall>s. dict_get (active_sessions w) ''default'' = Some s \<longrightarrow>
         map_option (\<lambda>s'. map_option request_of (dict_get (collaborationRequests s') (requestId rd)))
           (dict_get (active_sessions (collaboration_request sid rd w)) ''default'') =
           Some (Some rd)"
    by (simp add: collaboration_request_sessions k store_request_get dict_get_set)
  show "\<forall>s. dict_get (active_sessions w) ''default'' = Some s \<longrightarrow>
         dict_get (active_sessions (collaboration_request sid rd w)) ''default'' =
           Some (s\<lparr>collaborationRequests :=
                     dict_set (requestId rd)
                       \<lparr>request_of = rd, collaboration_timestamp = clock w (ticks w) * 1000,
                        collaboration_status = ''pending''\<rparr>
                       (collaborationRequests s)\<rparr>)"
    by (simp add: collaboration_request_sessions k store_request_get)
qed

theorem missing_session_id_defaults_witness:
  "task_sessionId task_anywhere = None \<and> task_id task_anywhere = Some ''t4'' \<and>
   progress_sessionId progress_anywhere = None \<and> request_sessionId request_anywhere = None \<and>
   dict_get (active_sessions example_world) ''default'' = Some session_default \<and>
   \<not> truthy (targetAgent request_anywhere) \<and>
   map_option definition_of
     (stored_task (start_task ''c1'' task_anywhere example_world) ''default'' ''t4'') =
     Some task_anywhere \<and>
   list_all (\<lambda>e. room e = Some ''default'' \<and> event_name (event e) \<noteq> ''error'')
     (emitted_since example_world (start_task ''c1'' task_anywhere example_world)) \<and>
   dict_get (active_sessions (start_task ''c1'' task_anywhere example_world)) ''s1'' =
     Some session_s1 \<and>
   emitted_since example_world (agent_progress ''c1'' progress_anywhere example_world) =
     [\<lparr>event = TaskProgress ''default'' progress_anywhere ''development'' 3000 4000,
       room = Some ''default''\<rparr>] \<and>
   dict_get (active_sessions (agent_progress ''c1'' progress_anywhere example_world)) ''default'' =
     Some (session_default
             \<lparr>tasks := [(''t0'', task_t0\<lparr>lastProgress := Some progress_anywhere,
                                        lastUpdate := Some 1000\<rparr>)],
              lastActivity := 2000,
              session_metrics :=
                \<lparr>totalTasks = 0, completedTasks = 1, errorCount = 0, avgExecutionTime = 0\<rparr>\<rparr>) \<and>
   emitted_since example_world (collaboration_request ''c1'' request_anywhere example_world) =
     [\<lparr>event = CollaborationRequest request_anywhere 2000, room = Some ''default''\<rparr>]"
proof -
  have a: "task_sessionId task_anywhere = None" "task_id task_anywhere = Some ''t4''"
    "progress_sessionId progress_anywhere = None" "request_sessionId request_anywhere = None"
    "\<not> truthy (targetAgent request_anywhere)" "''t4'' \<noteq> []"
    "progress_taskId progress_anywhere = Some ''t0''"
    "progress_status progress_anywhere = Some ''completed''"
    by (simp_all add: task_anywhere_def progress_anywhere_def request_anywhere_def)
  have d: "dict_has ''default'' (active_sessions example_world)"
    by (simp add: dict_has_def example_default)
  have st: "stored_task example_world ''default'' ''t0'' = Some task_t0"
    by (simp add: stored_task_def example_default example_default_t0)
  have t: "ticks (agent_progress ''c1'' progress_anywhere example_world) = 5"
    "ticks (collaboration_request ''c1'' request_anywhere example_world) = 3"
    using d st
    by (simp_all add: agent_progress_ticks collaboration_request_ticks a update_progress_ticks
          store_request_ticks stored_task_def)
       (simp_all add: example_world_def)
  have c: "clock example_world 2 = 2" "clock example_world 3 = 3" "clock example_world 4 = 4"
    "clock example_world (ticks example_world) = 1"
    "clock example_world (Suc (ticks example_world)) = 2"
    "environment example_world = ''development''"
    by (simp_all add: example_world_def example_clock_def)
  have m: "session_metrics session_default =
             \<lparr>totalTasks = 0, completedTasks = 0, errorCount = 0, avgExecutionTime = 0\<rparr>"
    "tasks session_default = [(''t0'', task_t0)]"
    "dict_get [(''t0'', task_t0)] ''t0'' = Some task_t0"
    by (simp_all add: session_default_def new_session_def dict_get_def)
  show ?thesis
    using missing_session_id_defaults
            [of task_anywhere "''t4''" example_world "''c1''" progress_anywhere request_anywhere]
      a d example_s1 example_default
    by (simp add: t c example_default_t0 m)
qed

end
